theory Spec2Isabelle
  imports Complex_Main "HOL-Library.Sublist"
begin

section \<open>The product catalogue service of \<^verbatim>\<open>01_api/index.js\<close>\<close>

text \<open>
  The development follows the handlers of \<^verbatim>\<open>src/01_api/index.js\<close>. A JavaScript string is
  a \<^typ>\<open>string\<close>, read as a list of code units below 256. A value that may be
  \<^verbatim>\<open>undefined\<close> or \<^verbatim>\<open>null\<close> is an \<^typ>\<open>'a option\<close>.
\<close>

subsection \<open>Strings of the language\<close>

text \<open>Truthiness of a string that may be absent: \<^verbatim>\<open>undefined\<close>, \<^verbatim>\<open>null\<close> and \<^verbatim>\<open>''\<close> are falsy.\<close>

definition truthy :: "string option \<Rightarrow> bool" where
  "truthy v = (case v of None \<Rightarrow> False | Some s \<Rightarrow> s \<noteq> [])"

text \<open>\<^verbatim>\<open>String.prototype.startsWith\<close>.\<close>

definition startsWith :: "string \<Rightarrow> string \<Rightarrow> bool" where
  "startsWith s p = prefix p s"

text \<open>A template literal prints an absent value as the word \<^verbatim>\<open>undefined\<close>.\<close>

definition template :: "string option \<Rightarrow> string" where
  "template v = (case v of None \<Rightarrow> ''undefined'' | Some s \<Rightarrow> s)"

text \<open>
  White space and line terminators of the language among the code units below 256:
  tab, line feed, vertical tab, form feed, carriage return, space and no-break space.
\<close>

definition isWhiteSpace :: "char \<Rightarrow> bool" where
  "isWhiteSpace c = (of_char c \<in> {9, 10, 11, 12, 13, 32, 160 :: nat})"

text \<open>\<^verbatim>\<open>String.prototype.trim\<close>.\<close>

definition trim :: "string \<Rightarrow> string" where
  "trim s = rev (dropWhile isWhiteSpace (rev (dropWhile isWhiteSpace s)))"

subsection \<open>Numbers of the language\<close>

text \<open>
  A number is a finite value, \<^verbatim>\<open>NaN\<close> or one of the two infinities. Finite values are
  exact rationals, and reading a numeral, \<^verbatim>\<open>-\<close>, \<^verbatim>\<open>*\<close> and \<^verbatim>\<open>/\<close> are exact. The language
  rounds every result to the nearest double; the two agree where no rounding happens, in
  particular on integers below \<open>2\<^sup>5\<^sup>3\<close> in magnitude, and differ elsewhere (a fraction such as
  \<^verbatim>\<open>1.15\<close>, an integer from \<open>2\<^sup>5\<^sup>3\<close> on, a numeral beyond the largest double). The properties
  about the offset and about a stored stock or price given as a numeral carry this range
  as a hypothesis. The two zeros
  are one value; a quotient by zero takes the sign of the dividend. The handlers show a
  number only in a bound SQL parameter or in a JSON response, and neither tells the zeros
  apart.
\<close>

datatype jsnum = Fin rat | NaN | PosInf | NegInf

definition js_neg :: "jsnum \<Rightarrow> jsnum" where
  "js_neg x = (case x of Fin r \<Rightarrow> Fin (- r) | NaN \<Rightarrow> NaN | PosInf \<Rightarrow> NegInf | NegInf \<Rightarrow> PosInf)"

text \<open>The operators \<^verbatim>\<open>-\<close>, \<^verbatim>\<open>*\<close> and \<^verbatim>\<open>/\<close> on numbers.\<close>

fun js_sub :: "jsnum \<Rightarrow> jsnum \<Rightarrow> jsnum" where
  "js_sub (Fin a) (Fin b) = Fin (a - b)"
| "js_sub NaN _ = NaN"
| "js_sub _ NaN = NaN"
| "js_sub PosInf PosInf = NaN"
| "js_sub NegInf NegInf = NaN"
| "js_sub PosInf _ = PosInf"
| "js_sub NegInf _ = NegInf"
| "js_sub (Fin a) PosInf = NegInf"
| "js_sub (Fin a) NegInf = PosInf"

definition infinity :: "bool \<Rightarrow> jsnum" where
  "infinity negative = (if negative then NegInf else PosInf)"

fun js_mul :: "jsnum \<Rightarrow> jsnum \<Rightarrow> jsnum" where
  "js_mul (Fin a) (Fin b) = Fin (a * b)"
| "js_mul NaN _ = NaN"
| "js_mul _ NaN = NaN"
| "js_mul PosInf (Fin b) = (if b = 0 then NaN else infinity (b < 0))"
| "js_mul NegInf (Fin b) = (if b = 0 then NaN else infinity (0 < b))"
| "js_mul (Fin a) PosInf = (if a = 0 then NaN else infinity (a < 0))"
| "js_mul (Fin a) NegInf = (if a = 0 then NaN else infinity (0 < a))"
| "js_mul PosInf PosInf = PosInf"
| "js_mul NegInf NegInf = PosInf"
| "js_mul PosInf NegInf = NegInf"
| "js_mul NegInf PosInf = NegInf"

fun js_div :: "jsnum \<Rightarrow> jsnum \<Rightarrow> jsnum" where
  "js_div (Fin a) (Fin b) =
     (if b = 0 then (if a = 0 then NaN else infinity (a < 0)) else Fin (a / b))"
| "js_div NaN _ = NaN"
| "js_div _ NaN = NaN"
| "js_div (Fin a) PosInf = Fin 0"
| "js_div (Fin a) NegInf = Fin 0"
| "js_div PosInf (Fin b) = infinity (b < 0)"
| "js_div NegInf (Fin b) = infinity (0 \<le> b)"
| "js_div PosInf _ = NaN"
| "js_div NegInf _ = NaN"

text \<open>\<^verbatim>\<open>Math.ceil\<close>.\<close>

definition Math_ceil :: "jsnum \<Rightarrow> jsnum" where
  "Math_ceil x = (case x of Fin r \<Rightarrow> Fin (of_int \<lceil>r\<rceil>) | _ \<Rightarrow> x)"

text \<open>\<^verbatim>\<open>x || 0\<close> on a number: \<^verbatim>\<open>NaN\<close> and zero are falsy.\<close>

definition or_zero :: "jsnum \<Rightarrow> jsnum" where
  "or_zero x = (if x = NaN \<or> x = Fin 0 then Fin 0 else x)"

text \<open>
  A number in a JSON document, as \<^verbatim>\<open>res.json\<close> writes it: \<^verbatim>\<open>NaN\<close> and the infinities
  are written \<^verbatim>\<open>null\<close>.
\<close>

definition json_number :: "jsnum \<Rightarrow> rat option" where
  "json_number x = (case x of Fin r \<Rightarrow> Some r | _ \<Rightarrow> None)"

subsection \<open>Reading numbers from strings\<close>

text \<open>
  The functions of this subsection give the exact value of the numeral they read. The
  language rounds that value to the nearest double, and to an infinity beyond the largest
  double; the two agree when the value is a double, as every integer below \<open>2\<^sup>5\<^sup>3\<close> in
  magnitude is.
\<close>

text \<open>The value of a digit or letter in a numeral; 36 for any other code unit.\<close>

definition digitValue :: "char \<Rightarrow> nat" where
  "digitValue c =
     (let n = of_char c :: nat in
      if 48 \<le> n \<and> n \<le> 57 then n - 48
      else if 97 \<le> n \<and> n \<le> 122 then n - 87
      else if 65 \<le> n \<and> n \<le> 90 then n - 55
      else 36)"

definition isDigit :: "nat \<Rightarrow> char \<Rightarrow> bool" where
  "isDigit radix c = (digitValue c < radix)"

definition digitsValue :: "nat \<Rightarrow> string \<Rightarrow> nat" where
  "digitsValue radix ds = foldl (\<lambda>acc c. acc * radix + digitValue c) 0 ds"

text \<open>An optional sign: whether it is a minus, and the rest of the string.\<close>

definition signed :: "string \<Rightarrow> bool \<times> string" where
  "signed s =
     (case s of
        c # cs \<Rightarrow>
          if c = CHR ''-'' then (True, cs) else if c = CHR ''+'' then (False, cs) else (False, s)
      | [] \<Rightarrow> (False, s))"

text \<open>
  \<^verbatim>\<open>parseInt\<close> of a string, with no radix argument: leading white space, a sign, a
  \<^verbatim>\<open>0x\<close> prefix, then the longest run of digits; \<^verbatim>\<open>NaN\<close> when there is none.
\<close>

definition parseInt_str :: "string \<Rightarrow> jsnum" where
  "parseInt_str s =
     (let (neg, t) = signed (dropWhile isWhiteSpace s);
          hex = (prefix ''0x'' t \<or> prefix ''0X'' t);
          radix = (if hex then 16 else 10);
          ds = takeWhile (isDigit radix) (if hex then drop 2 t else t)
      in if ds = [] then NaN
         else if neg then Fin (- of_nat (digitsValue radix ds))
         else Fin (of_nat (digitsValue radix ds)))"

text \<open>An exponent part \<^verbatim>\<open>e\<close>, sign, digits at the head of a string, if there is a whole one.\<close>

definition exponentPart :: "string \<Rightarrow> int \<times> string" where
  "exponentPart s =
     (case s of
        [] \<Rightarrow> (0, s)
      | c # cs \<Rightarrow>
          if c = CHR ''e'' \<or> c = CHR ''E'' then
            (let (neg, t) = signed cs; ds = takeWhile (isDigit 10) t
             in if ds = [] then (0, s)
                else ((if neg then - int (digitsValue 10 ds) else int (digitsValue 10 ds)),
                      dropWhile (isDigit 10) t))
          else (0, s))"

text \<open>
  The longest unsigned decimal literal at the head of a string (\<^verbatim>\<open>Infinity\<close>, or digits
  with an optional fraction and exponent), with its value and the rest of the string.
\<close>

definition decimalPrefix :: "string \<Rightarrow> (jsnum \<times> string) option" where
  "decimalPrefix s =
     (if prefix ''Infinity'' s then Some (PosInf, drop 8 s)
      else
        let ip = takeWhile (isDigit 10) s; r1 = dropWhile (isDigit 10) s;
            dot = (r1 \<noteq> [] \<and> hd r1 = CHR ''.'');
            fp = (if dot then takeWhile (isDigit 10) (tl r1) else []);
            r2 = (if dot then dropWhile (isDigit 10) (tl r1) else r1)
        in if ip = [] \<and> fp = [] then None
           else
             let (e, r3) = exponentPart r2;
                 m = of_nat (digitsValue 10 ip) + of_nat (digitsValue 10 fp) / 10 ^ length fp
             in Some (Fin (m * 10 powi e), r3))"

text \<open>\<^verbatim>\<open>parseFloat\<close> of a string.\<close>

definition parseFloat_str :: "string \<Rightarrow> jsnum" where
  "parseFloat_str s =
     (let (neg, t) = signed (dropWhile isWhiteSpace s)
      in case decimalPrefix t of
           None \<Rightarrow> NaN
         | Some (v, _) \<Rightarrow> if neg then js_neg v else v)"

definition radixPrefix :: "string \<Rightarrow> nat option" where
  "radixPrefix t =
     (if prefix ''0x'' t \<or> prefix ''0X'' t then Some 16
      else if prefix ''0o'' t \<or> prefix ''0O'' t then Some 8
      else if prefix ''0b'' t \<or> prefix ''0B'' t then Some 2
      else None)"

text \<open>
  The conversion of a string to a number that the arithmetic operators apply: the
  trimmed string is empty (zero), a whole numeric literal, or not a number.
\<close>

definition StringToNumber :: "string \<Rightarrow> jsnum" where
  "StringToNumber s =
     (let t = trim s in
      if t = [] then Fin 0
      else case radixPrefix t of
        Some radix \<Rightarrow>
          (let ds = drop 2 t
           in if ds \<noteq> [] \<and> list_all (isDigit radix) ds
              then Fin (of_nat (digitsValue radix ds)) else NaN)
      | None \<Rightarrow>
          (let (neg, u) = signed t
           in case decimalPrefix u of
                Some (v, []) \<Rightarrow> if neg then js_neg v else v
              | _ \<Rightarrow> NaN))"

text \<open>
  \<^verbatim>\<open>parseInt\<close> of a number reads the number's decimal text. From \<open>10\<^sup>-\<^sup>6\<close> up to \<open>10\<^sup>2\<^sup>1\<close>
  the text is positional and the result is the integer part; outside, the text is in
  exponent form and the result is its leading digit.
\<close>

fun leadingDigit :: "nat \<Rightarrow> nat" where
  "leadingDigit n = (if n < 10 then n else leadingDigit (n div 10))"

fun decimalLength :: "nat \<Rightarrow> nat" where
  "decimalLength n = (if n < 10 then 1 else Suc (decimalLength (n div 10)))"

definition parseInt_num :: "jsnum \<Rightarrow> jsnum" where
  "parseInt_num x =
     (case x of
        Fin r \<Rightarrow>
          (let a = \<bar>r\<bar>;
               d = (if a = 0 then 0
                    else if 1 / 10 ^ 6 \<le> a \<and> a < 10 ^ 21 then \<lfloor>a\<rfloor>
                    else if 10 ^ 21 \<le> a then int (leadingDigit (nat \<lfloor>a\<rfloor>))
                    else int (leadingDigit
                           (nat \<lfloor>a * 10 ^ decimalLength (nat (snd (quotient_of a)))\<rfloor>)))
           in Fin (of_int (if r < 0 then - d else d)))
      | _ \<Rightarrow> NaN)"

text \<open>
  A value that is a string or a number: a query parameter, or the default the
  destructuring gives when the parameter is absent.
\<close>

datatype strnum = Str string | Num jsnum

definition ToNumber :: "strnum \<Rightarrow> jsnum" where
  "ToNumber v = (case v of Str s \<Rightarrow> StringToNumber s | Num n \<Rightarrow> n)"

definition parseInt :: "strnum \<Rightarrow> jsnum" where
  "parseInt v = (case v of Str s \<Rightarrow> parseInt_str s | Num n \<Rightarrow> parseInt_num n)"

text \<open>
  \<^verbatim>\<open>parseInt\<close> and \<^verbatim>\<open>parseFloat\<close> of a form field: an absent field is read as the word
  \<^verbatim>\<open>undefined\<close>.
\<close>

definition parseInt_field :: "string option \<Rightarrow> jsnum" where
  "parseInt_field v = parseInt_str (template v)"

definition parseFloat_field :: "string option \<Rightarrow> jsnum" where
  "parseFloat_field v = parseFloat_str (template v)"

subsection \<open>The image URL helper\<close>

text \<open>What \<^verbatim>\<open>getImageUrl\<close> reads of the request: \<^verbatim>\<open>req.protocol\<close> and \<^verbatim>\<open>req.get('host')\<close>.\<close>

record request =
  protocol :: string
  host :: "string option"

definition getImageUrl :: "string option \<Rightarrow> request \<Rightarrow> string option" where
  "getImageUrl imageUrl req =
     (case imageUrl of
        None \<Rightarrow> None
      | Some u \<Rightarrow>
          if \<not> truthy (Some u) then None
          else if startsWith u ''http://'' \<or> startsWith u ''https://'' then Some u
          else if startsWith u ''/uploads/''
            then Some (protocol req @ ''://'' @ template (host req) @ u)
          else Some u)"

subsection \<open>The statements of the product list\<close>

text \<open>
  \<^verbatim>\<open>req.query\<close> of \<^verbatim>\<open>GET /products\<close>: each parameter is a string or absent.
\<close>

record products_query =
  search :: "string option"
  category :: "string option"
  minPrice :: "string option"
  maxPrice :: "string option"
  page :: "string option"
  limit :: "string option"

text \<open>
  A value bound to a placeholder: a string, \<^verbatim>\<open>null\<close> or \<^verbatim>\<open>undefined\<close> (both sent as
  \<^verbatim>\<open>NULL\<close>), or a number.
\<close>

datatype sqlparam = PText "string option" | PNum jsnum

text \<open>The four variables the handler builds: two statement texts and their parameters.\<close>

record statement =
  query :: string
  countQuery :: string
  params :: "sqlparam list"
  countParams :: "sqlparam list"

text \<open>Lines 82 to 85: the statements before any filter.\<close>

definition initial_statement :: statement where
  "initial_statement =
     \<lparr>query = ''SELECT * FROM products WHERE 1=1'',
      countQuery = ''SELECT COUNT(*) as total FROM products WHERE 1=1'',
      params = [], countParams = []\<rparr>"

text \<open>Lines 87 to 93: \<^verbatim>\<open>if (search)\<close>.\<close>

definition add_search :: "products_query \<Rightarrow> statement \<Rightarrow> statement" where
  "add_search q st =
     (if truthy (search q) then
        (let searchTerm = ''%'' @ template (search q) @ ''%''
         in st\<lparr>query := query st @ '' AND (name LIKE ? OR description LIKE ?)'',
               countQuery := countQuery st @ '' AND (name LIKE ? OR description LIKE ?)'',
               params := params st @ [PText (Some searchTerm), PText (Some searchTerm)],
               countParams := countParams st @ [PText (Some searchTerm), PText (Some searchTerm)]\<rparr>)
      else st)"

text \<open>Lines 95 to 100: \<^verbatim>\<open>if (category)\<close>.\<close>

definition add_category :: "products_query \<Rightarrow> statement \<Rightarrow> statement" where
  "add_category q st =
     (if truthy (category q) then
        st\<lparr>query := query st @ '' AND category = ?'',
           countQuery := countQuery st @ '' AND category = ?'',
           params := params st @ [PText (category q)],
           countParams := countParams st @ [PText (category q)]\<rparr>
      else st)"

text \<open>Lines 102 to 107: \<^verbatim>\<open>if (minPrice)\<close>.\<close>

definition add_minPrice :: "products_query \<Rightarrow> statement \<Rightarrow> statement" where
  "add_minPrice q st =
     (if truthy (minPrice q) then
        st\<lparr>query := query st @ '' AND price >= ?'',
           countQuery := countQuery st @ '' AND price >= ?'',
           params := params st @ [PNum (parseFloat_field (minPrice q))],
           countParams := countParams st @ [PNum (parseFloat_field (minPrice q))]\<rparr>
      else st)"

text \<open>Lines 109 to 114: \<^verbatim>\<open>if (maxPrice)\<close>.\<close>

definition add_maxPrice :: "products_query \<Rightarrow> statement \<Rightarrow> statement" where
  "add_maxPrice q st =
     (if truthy (maxPrice q) then
        st\<lparr>query := query st @ '' AND price <= ?'',
           countQuery := countQuery st @ '' AND price <= ?'',
           params := params st @ [PNum (parseFloat_field (maxPrice q))],
           countParams := countParams st @ [PNum (parseFloat_field (maxPrice q))]\<rparr>
      else st)"

text \<open>The four filters, in the order of the source.\<close>

definition filter_statement :: "products_query \<Rightarrow> statement" where
  "filter_statement q =
     add_maxPrice q (add_minPrice q (add_category q (add_search q initial_statement)))"

text \<open>The destructuring defaults \<^verbatim>\<open>page = 1\<close> and \<^verbatim>\<open>limit = 20\<close>.\<close>

definition page_value :: "products_query \<Rightarrow> strnum" where
  "page_value q = (case page q of None \<Rightarrow> Num (Fin 1) | Some s \<Rightarrow> Str s)"

definition limit_value :: "products_query \<Rightarrow> strnum" where
  "limit_value q = (case limit q of None \<Rightarrow> Num (Fin 20) | Some s \<Rightarrow> Str s)"

text \<open>
  Line 117: \<^verbatim>\<open>const offset = (page - 1) * limit\<close>. The difference and the product are exact
  here and rounded in the language; they agree when page, limit and the product are
  integers below \<open>2\<^sup>5\<^sup>3\<close> in magnitude.
\<close>

definition offset :: "products_query \<Rightarrow> jsnum" where
  "offset q = js_mul (js_sub (ToNumber (page_value q)) (Fin 1)) (ToNumber (limit_value q))"

text \<open>Lines 116 and 118: the ordering and the pagination of the data statement.\<close>

definition list_statement :: "products_query \<Rightarrow> statement" where
  "list_statement q =
     (let st = filter_statement q
      in st\<lparr>query := query st @ '' ORDER BY createdAt DESC LIMIT ? OFFSET ?'',
            params := params st @ [PNum (parseInt (limit_value q)), PNum (parseInt (Num (offset q)))]\<rparr>)"

subsection \<open>The storage engine\<close>

text \<open>
  The handlers reach the store through \<^verbatim>\<open>pool.query(text, params)\<close> alone. The engine is
  outside the sources; this is a model of what it does with the statements the handlers
  send. A row of the table \<^verbatim>\<open>products\<close>:
\<close>

record product =
  c_id :: nat
  c_name :: "string option"
  c_slug :: "string option"
  c_description :: "string option"
  c_price :: rat
  c_category :: "string option"
  c_stock :: rat
  c_imageUrl :: "string option"
  c_createdAt :: nat

text \<open>The table, the next generated identifier and the engine's clock.\<close>

record database =
  rows :: "product list"
  next_id :: nat
  now :: nat

text \<open>An error of the engine, with the \<^verbatim>\<open>code\<close> the handlers read.\<close>

datatype dberror = DbError string

definition code :: "dberror \<Rightarrow> string" where
  "code e = (case e of DbError c \<Rightarrow> c)"

text \<open>What a statement returns: rows, the one row of a count, or the header of a write.\<close>

datatype result = Rows "product list" | Total nat | Header nat nat

text \<open>
  The pattern language of \<^verbatim>\<open>LIKE\<close>: \<^verbatim>\<open>%\<close> stands for any sequence, \<^verbatim>\<open>_\<close> for any one
  character, a backslash makes the next character literal.
\<close>

datatype like_token = AnySequence | AnyOne | Literal char

fun like_tokens :: "string \<Rightarrow> like_token list" where
  "like_tokens [] = []"
| "like_tokens [c] =
     [if c = CHR ''%'' then AnySequence else if c = CHR ''_'' then AnyOne else Literal c]"
| "like_tokens (c # d # p) =
     (if c = CHR ''%'' then AnySequence # like_tokens (d # p)
      else if c = CHR ''_'' then AnyOne # like_tokens (d # p)
      else if c = CHR 0x5C then Literal d # like_tokens p
      else Literal c # like_tokens (d # p))"

definition lower :: "char \<Rightarrow> char" where
  "lower c = (if 65 \<le> (of_char c :: nat) \<and> (of_char c :: nat) \<le> 90
              then char_of (of_char c + 32 :: nat) else c)"

text \<open>
  Modelled from the spec: the collation of the text columns is declared with the table,
  outside the sources; following the spec, \<^verbatim>\<open>LIKE\<close> compares without regard to case and
  \<^verbatim>\<open>=\<close> compares exactly.
\<close>

fun like_match :: "like_token list \<Rightarrow> string \<Rightarrow> bool" where
  "like_match [] s = (s = [])"
| "like_match (AnySequence # p) [] = like_match p []"
| "like_match (AnySequence # p) (x # s) = (like_match p (x # s) \<or> like_match (AnySequence # p) s)"
| "like_match (AnyOne # p) [] = False"
| "like_match (AnyOne # p) (x # s) = like_match p s"
| "like_match (Literal c # p) [] = False"
| "like_match (Literal c # p) (x # s) = (lower c = lower x \<and> like_match p s)"

text \<open>\<^verbatim>\<open>column LIKE ?\<close>: not true when the column or the pattern is \<^verbatim>\<open>NULL\<close>.\<close>

definition sql_like :: "string option \<Rightarrow> string option \<Rightarrow> bool" where
  "sql_like v pat =
     (case v of None \<Rightarrow> False
      | Some s \<Rightarrow> (case pat of None \<Rightarrow> False | Some p \<Rightarrow> like_match (like_tokens p) s))"

text \<open>The conditions that may follow \<^verbatim>\<open>WHERE 1=1\<close>, each with its bound parameters.\<close>

datatype condition =
    NameOrDescriptionLike sqlparam sqlparam
  | CategoryIs sqlparam
  | PriceAtLeast sqlparam
  | PriceAtMost sqlparam

text \<open>
  Reading the conditions off a statement text, left to right, each placeholder taking
  the next parameter. The result is the conditions read, then the text and the
  parameters left over.
\<close>

fun conditions ::
  "condition list \<Rightarrow> string \<Rightarrow> sqlparam list \<Rightarrow> condition list \<times> string \<times> sqlparam list" where
  "conditions acc t [] = (acc, t, [])"
| "conditions acc t [p] =
     (if prefix '' AND category = ?'' t
        then conditions (acc @ [CategoryIs p]) (drop (length '' AND category = ?'') t) []
      else if prefix '' AND price >= ?'' t
        then conditions (acc @ [PriceAtLeast p]) (drop (length '' AND price >= ?'') t) []
      else if prefix '' AND price <= ?'' t
        then conditions (acc @ [PriceAtMost p]) (drop (length '' AND price <= ?'') t) []
      else (acc, t, [p]))"
| "conditions acc t (p # p' # ps) =
     (if prefix '' AND (name LIKE ? OR description LIKE ?)'' t
        then conditions (acc @ [NameOrDescriptionLike p p'])
               (drop (length '' AND (name LIKE ? OR description LIKE ?)'') t) ps
      else if prefix '' AND category = ?'' t
        then conditions (acc @ [CategoryIs p]) (drop (length '' AND category = ?'') t) (p' # ps)
      else if prefix '' AND price >= ?'' t
        then conditions (acc @ [PriceAtLeast p]) (drop (length '' AND price >= ?'') t) (p' # ps)
      else if prefix '' AND price <= ?'' t
        then conditions (acc @ [PriceAtMost p]) (drop (length '' AND price <= ?'') t) (p' # ps)
      else (acc, t, p # p' # ps))"

text \<open>
  A number is written into the statement as its decimal text, so \<^verbatim>\<open>NaN\<close> and the
  infinities arrive as bare words and the engine rejects the statement.
\<close>

definition is_text :: "sqlparam \<Rightarrow> bool" where
  "is_text p = (case p of PText _ \<Rightarrow> True | PNum _ \<Rightarrow> False)"

definition is_number :: "sqlparam \<Rightarrow> bool" where
  "is_number p = (case p of PText _ \<Rightarrow> False | PNum _ \<Rightarrow> True)"

definition is_finite :: "sqlparam \<Rightarrow> bool" where
  "is_finite p = (case p of PNum (Fin _) \<Rightarrow> True | _ \<Rightarrow> False)"

definition text_of :: "sqlparam \<Rightarrow> string option" where
  "text_of p = (case p of PText v \<Rightarrow> v | PNum _ \<Rightarrow> None)"

definition rat_of :: "sqlparam \<Rightarrow> rat" where
  "rat_of p = (case p of PNum (Fin r) \<Rightarrow> r | _ \<Rightarrow> 0)"

text \<open>
  The handlers bind strings to the text conditions and numbers to the price bounds; the
  engine model covers these kinds of parameter and rejects a statement with any other.
\<close>

definition condition_error :: "condition \<Rightarrow> dberror option" where
  "condition_error c =
     (case c of
        NameOrDescriptionLike a b \<Rightarrow>
          if is_text a \<and> is_text b then None else Some (DbError ''ER_WRONG_ARGUMENTS'')
      | CategoryIs a \<Rightarrow> if is_text a then None else Some (DbError ''ER_WRONG_ARGUMENTS'')
      | PriceAtLeast a \<Rightarrow>
          if \<not> is_number a then Some (DbError ''ER_WRONG_ARGUMENTS'')
          else if \<not> is_finite a then Some (DbError ''ER_BAD_FIELD_ERROR'') else None
      | PriceAtMost a \<Rightarrow>
          if \<not> is_number a then Some (DbError ''ER_WRONG_ARGUMENTS'')
          else if \<not> is_finite a then Some (DbError ''ER_BAD_FIELD_ERROR'') else None)"

definition holds :: "condition \<Rightarrow> product \<Rightarrow> bool" where
  "holds c r =
     (case c of
        NameOrDescriptionLike a b \<Rightarrow>
          sql_like (c_name r) (text_of a) \<or> sql_like (c_description r) (text_of b)
      | CategoryIs a \<Rightarrow> text_of a \<noteq> None \<and> c_category r = text_of a
      | PriceAtLeast a \<Rightarrow> rat_of a \<le> c_price r
      | PriceAtMost a \<Rightarrow> c_price r \<le> rat_of a)"

definition matching :: "condition list \<Rightarrow> product list \<Rightarrow> product list" where
  "matching cs rs = filter (\<lambda>r. list_all (\<lambda>c. holds c r) cs) rs"

text \<open>A row count for \<^verbatim>\<open>LIMIT\<close> or \<^verbatim>\<open>OFFSET\<close>: an unsigned integer constant of 64 bits.\<close>

definition row_count :: "sqlparam \<Rightarrow> nat option" where
  "row_count p =
     (if is_finite p \<and> 0 \<le> rat_of p \<and> rat_of p < 2 ^ 64 \<and> rat_of p = of_int \<lfloor>rat_of p\<rfloor>
      then Some (nat \<lfloor>rat_of p\<rfloor>) else None)"

text \<open>
  The two statements of the product list. The engine does not fix the order of rows with
  equal \<^verbatim>\<open>createdAt\<close>; the model takes one such order.
\<close>

definition select_list :: "database \<Rightarrow> string \<Rightarrow> sqlparam list \<Rightarrow> dberror + database \<times> result" where
  "select_list db t ps =
     (case conditions [] t ps of
        (cs, rest, ps') \<Rightarrow>
          if rest \<noteq> '' ORDER BY createdAt DESC LIMIT ? OFFSET ?'' then Inl (DbError ''ER_PARSE_ERROR'')
          else case List.find (\<lambda>c. condition_error c \<noteq> None) cs of
            Some c \<Rightarrow> Inl (the (condition_error c))
          | None \<Rightarrow>
              (case ps' of
                 [l, off] \<Rightarrow>
                   (case row_count l of
                      None \<Rightarrow> Inl (DbError ''ER_PARSE_ERROR'')
                    | Some n \<Rightarrow>
                        (case row_count off of
                           None \<Rightarrow> Inl (DbError ''ER_PARSE_ERROR'')
                         | Some k \<Rightarrow>
                             Inr (db, Rows (take n (drop k
                                    (rev (sort_key c_createdAt (matching cs (rows db)))))))))
               | _ \<Rightarrow> Inl (DbError ''ER_PARSE_ERROR'')))"

definition select_count :: "database \<Rightarrow> string \<Rightarrow> sqlparam list \<Rightarrow> dberror + database \<times> result" where
  "select_count db t ps =
     (case conditions [] t ps of
        (cs, rest, ps') \<Rightarrow>
          if rest \<noteq> [] \<or> ps' \<noteq> [] then Inl (DbError ''ER_PARSE_ERROR'')
          else case List.find (\<lambda>c. condition_error c \<noteq> None) cs of
            Some c \<Rightarrow> Inl (the (condition_error c))
          | None \<Rightarrow> Inr (db, Total (length (matching cs (rows db)))))"

text \<open>\<^verbatim>\<open>SELECT * FROM products WHERE id = ?\<close>\<close>

definition select_by_id :: "database \<Rightarrow> sqlparam list \<Rightarrow> dberror + database \<times> result" where
  "select_by_id db ps =
     (case ps of
        [i] \<Rightarrow>
          if \<not> is_number i then Inl (DbError ''ER_WRONG_ARGUMENTS'')
          else if \<not> is_finite i then Inl (DbError ''ER_BAD_FIELD_ERROR'')
          else Inr (db, Rows (filter (\<lambda>r. of_nat (c_id r) = rat_of i) (rows db)))
      | _ \<Rightarrow> Inl (DbError ''ER_PARSE_ERROR''))"

text \<open>
  The seven values of an \<^verbatim>\<open>INSERT\<close> or \<^verbatim>\<open>UPDATE\<close>, laid over a row. The values are stored
  as they are bound.
\<close>

definition blank_row :: "nat \<Rightarrow> nat \<Rightarrow> product" where
  "blank_row i t =
     \<lparr>c_id = i, c_name = None, c_slug = None, c_description = None, c_price = 0,
      c_category = None, c_stock = 0, c_imageUrl = None, c_createdAt = t\<rparr>"

definition assign :: "product \<Rightarrow> sqlparam list \<Rightarrow> dberror + product" where
  "assign r ps =
     (case ps of
        [n, s, d, p, c, st, im] \<Rightarrow>
          if \<not> (is_text n \<and> is_text s \<and> is_text d \<and> is_number p \<and> is_text c \<and> is_number st
                \<and> is_text im)
            then Inl (DbError ''ER_WRONG_ARGUMENTS'')
          else if \<not> (is_finite p \<and> is_finite st) then Inl (DbError ''ER_BAD_FIELD_ERROR'')
          else Inr (r\<lparr>c_name := text_of n, c_slug := text_of s, c_description := text_of d,
                      c_price := rat_of p, c_category := text_of c, c_stock := rat_of st,
                      c_imageUrl := text_of im\<rparr>)
      | _ \<Rightarrow> Inl (DbError ''ER_PARSE_ERROR''))"

text \<open>
  Modelled from the spec: the table is declared outside the sources; following the
  spec, the slug is unique. A write that would give two rows the same slug fails with
  \<^verbatim>\<open>ER_DUP_ENTRY\<close>.
\<close>

definition slug_taken :: "product list \<Rightarrow> product \<Rightarrow> bool" where
  "slug_taken rs r =
     (c_slug r \<noteq> None \<and> list_ex (\<lambda>r'. c_id r' \<noteq> c_id r \<and> c_slug r' = c_slug r) rs)"

text \<open>
  The other constraints of the table's declaration (columns that refuse \<^verbatim>\<open>NULL\<close>, the
  ranges of the column types) are the parameter \<open>chk\<close>: the rows the table accepts.
\<close>

definition insert_row ::
  "(product \<Rightarrow> bool) \<Rightarrow> database \<Rightarrow> sqlparam list \<Rightarrow> dberror + database \<times> result" where
  "insert_row chk db ps =
     (case assign (blank_row (next_id db) (now db)) ps of
        Inl e \<Rightarrow> Inl e
      | Inr r \<Rightarrow>
          if \<not> chk r then Inl (DbError ''ER_CHECK_CONSTRAINT_VIOLATED'')
          else if slug_taken (rows db) r then Inl (DbError ''ER_DUP_ENTRY'')
          else Inr (db\<lparr>rows := rows db @ [r], next_id := Suc (next_id db)\<rparr>,
                    Header (next_id db) 1))"

definition update_row ::
  "(product \<Rightarrow> bool) \<Rightarrow> database \<Rightarrow> sqlparam list \<Rightarrow> dberror + database \<times> result" where
  "update_row chk db ps =
     (if length ps \<noteq> 8 then Inl (DbError ''ER_PARSE_ERROR'')
      else if \<not> is_number (last ps) then Inl (DbError ''ER_WRONG_ARGUMENTS'')
      else if \<not> is_finite (last ps) then Inl (DbError ''ER_BAD_FIELD_ERROR'')
      else case List.find (\<lambda>r. of_nat (c_id r) = rat_of (last ps)) (rows db) of
        None \<Rightarrow>
          (case assign (blank_row 0 0) (butlast ps) of
             Inl e \<Rightarrow> Inl e
           | Inr _ \<Rightarrow> Inr (db, Header 0 0))
      | Some r \<Rightarrow>
          (case assign r (butlast ps) of
             Inl e \<Rightarrow> Inl e
           | Inr r' \<Rightarrow>
               if \<not> chk r' then Inl (DbError ''ER_CHECK_CONSTRAINT_VIOLATED'')
               else if slug_taken (rows db) r' then Inl (DbError ''ER_DUP_ENTRY'')
               else Inr (db\<lparr>rows := map (\<lambda>x. if c_id x = c_id r then r' else x) (rows db)\<rparr>,
                         Header 0 1)))"

text \<open>\<^verbatim>\<open>pool.query\<close>: the statement texts of the handlers, and a syntax error for any other.\<close>

definition pool_query ::
  "(product \<Rightarrow> bool) \<Rightarrow> database \<Rightarrow> string \<Rightarrow> sqlparam list \<Rightarrow> dberror + database \<times> result" where
  "pool_query chk db text ps =
     (if text = ''INSERT INTO products (name, slug, description, price, category, stock, imageUrl) VALUES (?, ?, ?, ?, ?, ?, ?)''
        then insert_row chk db ps
      else if text = ''UPDATE products SET name=?, slug=?, description=?, price=?, category=?, stock=?, imageUrl=? WHERE id=?''
        then update_row chk db ps
      else if text = ''SELECT * FROM products WHERE id = ?''
        then select_by_id db ps
      else if prefix ''SELECT * FROM products WHERE 1=1'' text
        then select_list db (drop (length ''SELECT * FROM products WHERE 1=1'') text) ps
      else if prefix ''SELECT COUNT(*) as total FROM products WHERE 1=1'' text
        then select_count db (drop (length ''SELECT COUNT(*) as total FROM products WHERE 1=1'') text) ps
      else Inl (DbError ''ER_PARSE_ERROR''))"

subsection \<open>Responses\<close>

record pagination =
  total :: nat
  page_number :: "rat option"
  page_size :: "rat option"
  totalPages :: "rat option"

datatype json =
    ErrorJson string
  | ProductJson product
  | ListJson "product list" pagination

record response =
  status :: nat
  body :: json

text \<open>A row as the handlers send it: the image reference made absolute.\<close>

definition withFullUrl :: "request \<Rightarrow> product \<Rightarrow> product" where
  "withFullUrl req r = r\<lparr>c_imageUrl := getImageUrl (c_imageUrl r) req\<rparr>"

subsection \<open>The product list handler\<close>

text \<open>
  \<^verbatim>\<open>GET /products\<close>. Any failure of a statement is caught and answered with status 500.
  The fields \<^verbatim>\<open>page\<close>, \<^verbatim>\<open>limit\<close> and \<^verbatim>\<open>totalPages\<close> of the answer are named
  \<^const>\<open>page_number\<close>, \<^const>\<open>page_size\<close> and \<^const>\<open>totalPages\<close>.
\<close>

definition listProducts ::
  "(product \<Rightarrow> bool) \<Rightarrow> database \<Rightarrow> request \<Rightarrow> products_query \<Rightarrow> response" where
  "listProducts chk db req q =
     (let st = list_statement q
      in case pool_query chk db (query st) (params st) of
           Inr (db1, Rows rs) \<Rightarrow>
             (case pool_query chk db1 (countQuery st) (countParams st) of
                Inr (db2, Total n) \<Rightarrow>
                  \<lparr>status = 200,
                   body = ListJson (map (withFullUrl req) rs)
                     \<lparr>total = n,
                      page_number = json_number (parseInt (page_value q)),
                      page_size = json_number (parseInt (limit_value q)),
                      totalPages = json_number
                        (Math_ceil (js_div (Fin (of_nat n)) (ToNumber (limit_value q))))\<rparr>\<rparr>
              | _ \<Rightarrow> \<lparr>status = 500, body = ErrorJson ''Failed to fetch products''\<rparr>)
         | _ \<Rightarrow> \<lparr>status = 500, body = ErrorJson ''Failed to fetch products''\<rparr>)"

subsection \<open>The write handlers\<close>

text \<open>
  \<^verbatim>\<open>req.body\<close> of a multipart form: each field is a string or absent. \<^verbatim>\<open>req.file\<close> is
  the file the upload step stored, if the form had one. The handlers are modelled from
  the point where the upload step has accepted the request.
\<close>

record product_body =
  b_name :: "string option"
  b_slug :: "string option"
  b_description :: "string option"
  b_price :: "string option"
  b_category :: "string option"
  b_stock :: "string option"
  b_imageUrl :: "string option"

record upload =
  filename :: string

text \<open>
  Lines 172 to 177 and 210 to 215: the image reference to store, starting from
  \<^verbatim>\<open>null\<close> on create and from the stored reference on update.
\<close>

definition finalImageUrl :: "string option \<Rightarrow> upload option \<Rightarrow> string option \<Rightarrow> string option" where
  "finalImageUrl initial file imageUrl =
     (case file of
        Some f \<Rightarrow> Some (''/uploads/'' @ filename f)
      | None \<Rightarrow>
          if truthy imageUrl \<and> truthy (Some (trim (template imageUrl)))
          then Some (trim (template imageUrl))
          else initial)"

text \<open>\<^verbatim>\<open>description || null\<close>.\<close>

definition or_null :: "string option \<Rightarrow> string option" where
  "or_null v = (if truthy v then v else None)"

text \<open>The seven values both write handlers bind, in the order of the columns.\<close>

definition write_params :: "product_body \<Rightarrow> string option \<Rightarrow> sqlparam list" where
  "write_params b img =
     [PText (b_name b), PText (b_slug b), PText (or_null (b_description b)),
      PNum (parseFloat_field (b_price b)), PText (b_category b),
      PNum (or_zero (parseInt_field (b_stock b))), PText img]"

text \<open>
  The \<^verbatim>\<open>catch\<close> block of \<^verbatim>\<open>POST /products\<close>, lines 192 to 198, applied to \<^verbatim>\<open>e.code\<close>;
  an exception that is not an error of the engine has no code.
\<close>

definition create_catch :: "string option \<Rightarrow> response" where
  "create_catch e_code =
     (if e_code = Some ''ER_DUP_ENTRY''
      then \<lparr>status = 400, body = ErrorJson ''Product slug already exists''\<rparr>
      else \<lparr>status = 500, body = ErrorJson ''Failed to create product''\<rparr>)"

text \<open>\<^verbatim>\<open>POST /products\<close>\<close>

definition createProduct ::
  "(product \<Rightarrow> bool) \<Rightarrow> database \<Rightarrow> request \<Rightarrow> product_body \<Rightarrow> upload option
     \<Rightarrow> database \<times> response" where
  "createProduct chk db req b file =
     (if \<not> truthy (b_name b) \<or> \<not> truthy (b_slug b) \<or> \<not> truthy (b_price b) \<or> \<not> truthy (b_category b)
        then (db, \<lparr>status = 400, body = ErrorJson ''Missing required fields''\<rparr>)
      else
        case pool_query chk db
               ''INSERT INTO products (name, slug, description, price, category, stock, imageUrl) VALUES (?, ?, ?, ?, ?, ?, ?)''
               (write_params b (finalImageUrl None file (b_imageUrl b))) of
          Inl e \<Rightarrow> (db, create_catch (Some (code e)))
        | Inr (db1, Header insertId _) \<Rightarrow>
            (case pool_query chk db1 ''SELECT * FROM products WHERE id = ?''
                    [PNum (Fin (of_nat insertId))] of
               Inl e \<Rightarrow> (db1, create_catch (Some (code e)))
             | Inr (db2, Rows (r # _)) \<Rightarrow>
                 (db2, \<lparr>status = 201, body = ProductJson (withFullUrl req r)\<rparr>)
             | Inr (db2, _) \<Rightarrow> (db2, create_catch None))
        | Inr (db1, _) \<Rightarrow> (db1, create_catch None))"

text \<open>The \<^verbatim>\<open>catch\<close> block of \<^verbatim>\<open>PUT /products/:id\<close>, lines 230 to 233.\<close>

definition update_catch :: "string option \<Rightarrow> response" where
  "update_catch e_code = \<lparr>status = 500, body = ErrorJson ''Failed to update product''\<rparr>"

text \<open>
  \<^verbatim>\<open>PUT /products/:id\<close>. The route parameter is the identifier it denotes.
\<close>

definition updateProduct ::
  "(product \<Rightarrow> bool) \<Rightarrow> database \<Rightarrow> request \<Rightarrow> nat \<Rightarrow> product_body \<Rightarrow> upload option
     \<Rightarrow> database \<times> response" where
  "updateProduct chk db req ident b file =
     (case pool_query chk db ''SELECT * FROM products WHERE id = ?'' [PNum (Fin (of_nat ident))] of
        Inl e \<Rightarrow> (db, update_catch (Some (code e)))
      | Inr (db1, Rows []) \<Rightarrow> (db1, \<lparr>status = 404, body = ErrorJson ''Product not found''\<rparr>)
      | Inr (db1, Rows (existing # _)) \<Rightarrow>
          (case pool_query chk db1
                  ''UPDATE products SET name=?, slug=?, description=?, price=?, category=?, stock=?, imageUrl=? WHERE id=?''
                  (write_params b (finalImageUrl (c_imageUrl existing) file (b_imageUrl b))
                     @ [PNum (Fin (of_nat ident))]) of
             Inl e \<Rightarrow> (db1, update_catch (Some (code e)))
           | Inr (db2, _) \<Rightarrow>
               (case pool_query chk db2 ''SELECT * FROM products WHERE id = ?''
                       [PNum (Fin (of_nat ident))] of
                  Inl e \<Rightarrow> (db2, update_catch (Some (code e)))
                | Inr (db3, Rows (r # _)) \<Rightarrow>
                    (db3, \<lparr>status = 200, body = ProductJson (withFullUrl req r)\<rparr>)
                | Inr (db3, _) \<Rightarrow> (db3, update_catch None)))
      | Inr (db1, _) \<Rightarrow> (db1, update_catch None))"

subsection \<open>The filters as the specification states them\<close>

text \<open>
  The specification's side of the comparison with \<^const>\<open>list_statement\<close>. A parameter is
  supplied when it is present and not empty. Each supplied parameter contributes one
  predicate, an absent one contributes none: the search a \<^verbatim>\<open>LIKE\<close> on name or description
  with the term between wildcards, the category an equality, the prices an inclusive
  lower and an inclusive upper bound.
\<close>

definition supplied :: "string option \<Rightarrow> bool" where
  "supplied v = (v \<noteq> None \<and> v \<noteq> Some [])"

definition predicate_for :: "string option \<Rightarrow> (string \<Rightarrow> condition) \<Rightarrow> condition list" where
  "predicate_for v f = (case v of None \<Rightarrow> [] | Some s \<Rightarrow> if supplied v then [f s] else [])"

definition spec_predicates :: "products_query \<Rightarrow> condition list" where
  "spec_predicates q =
     predicate_for (search q)
       (\<lambda>s. NameOrDescriptionLike (PText (Some (''%'' @ s @ ''%''))) (PText (Some (''%'' @ s @ ''%''))))
     @ predicate_for (category q) (\<lambda>s. CategoryIs (PText (Some s)))
     @ predicate_for (minPrice q) (\<lambda>s. PriceAtLeast (PNum (parseFloat_str s)))
     @ predicate_for (maxPrice q) (\<lambda>s. PriceAtMost (PNum (parseFloat_str s)))"

text \<open>The text of a predicate, with its placeholders, and the parameters bound to them.\<close>

definition clause_text :: "condition \<Rightarrow> string" where
  "clause_text c =
     (case c of
        NameOrDescriptionLike _ _ \<Rightarrow> ''(name LIKE ? OR description LIKE ?)''
      | CategoryIs _ \<Rightarrow> ''category = ?''
      | PriceAtLeast _ \<Rightarrow> ''price >= ?''
      | PriceAtMost _ \<Rightarrow> ''price <= ?'')"

definition clause_params :: "condition \<Rightarrow> sqlparam list" where
  "clause_params c =
     (case c of
        NameOrDescriptionLike a b \<Rightarrow> [a, b]
      | CategoryIs a \<Rightarrow> [a]
      | PriceAtLeast a \<Rightarrow> [a]
      | PriceAtMost a \<Rightarrow> [a])"

text \<open>Predicates joined by \<^verbatim>\<open>AND\<close>, and their parameters in the same order.\<close>

definition conjoined :: "condition list \<Rightarrow> string" where
  "conjoined cs = concat (map (\<lambda>c. '' AND '' @ clause_text c) cs)"

definition bound :: "condition list \<Rightarrow> sqlparam list" where
  "bound cs = concat (map clause_params cs)"

text \<open>
  The search as the specification states it: the term occurs in the name or in the
  description, letters compared without regard to case.
\<close>

definition contains_ci :: "string option \<Rightarrow> string \<Rightarrow> bool" where
  "contains_ci v t = (case v of None \<Rightarrow> False | Some s \<Rightarrow> sublist (map lower t) (map lower s))"

definition spec_search :: "string \<Rightarrow> product \<Rightarrow> bool" where
  "spec_search t r = (contains_ci (c_name r) t \<or> contains_ci (c_description r) t)"

text \<open>The characters that \<^verbatim>\<open>LIKE\<close> does not take literally.\<close>

definition like_special :: "char \<Rightarrow> bool" where
  "like_special c = (c = CHR ''%'' \<or> c = CHR ''_'' \<or> c = CHR 0x5C)"

subsection \<open>Decimal numerals\<close>

text \<open>The decimal text of a natural number: what a numeric page or limit looks like.\<close>

definition digit_char :: "nat \<Rightarrow> char" where
  "digit_char d = char_of (48 + d)"

fun decimal :: "nat \<Rightarrow> string" where
  "decimal n = (if n < 10 then [digit_char n] else decimal (n div 10) @ [digit_char (n mod 10)])"

declare decimal.simps [simp del]

subsection \<open>Stored rows\<close>

text \<open>The row with a given identifier, and a row overwritten with the values of a form.\<close>

definition stored :: "database \<Rightarrow> nat \<Rightarrow> product option" where
  "stored db i = List.find (\<lambda>r. c_id r = i) (rows db)"

definition written :: "product \<Rightarrow> product_body \<Rightarrow> string option \<Rightarrow> product" where
  "written r b img =
     r\<lparr>c_name := b_name b, c_slug := b_slug b, c_description := or_null (b_description b),
       c_price := rat_of (PNum (parseFloat_field (b_price b))), c_category := b_category b,
       c_stock := rat_of (PNum (or_zero (parseInt_field (b_stock b)))), c_imageUrl := img\<rparr>"

subsection \<open>Example data\<close>

text \<open>A table that accepts every row, a request, a shop of five kitchen products and a form.\<close>

definition accept_all :: "product \<Rightarrow> bool" where
  "accept_all r = True"

definition example_request :: request where
  "example_request = \<lparr>protocol = ''http'', host = Some ''localhost:3001''\<rparr>"

definition kitchen_product :: "nat \<Rightarrow> string \<Rightarrow> string \<Rightarrow> nat \<Rightarrow> product" where
  "kitchen_product i n s t =
     \<lparr>c_id = i, c_name = Some n, c_slug = Some s, c_description = None, c_price = 5,
      c_category = Some ''kitchen'', c_stock = 1, c_imageUrl = None, c_createdAt = t\<rparr>"

definition example_shop :: database where
  "example_shop =
     \<lparr>rows = [kitchen_product 1 ''Mug'' ''mug-1'' 10, kitchen_product 2 ''Pan'' ''pan-1'' 11,
              kitchen_product 3 ''Pot'' ''pot-1'' 12, kitchen_product 4 ''Cup'' ''cup-1'' 13,
              kitchen_product 5 ''Fork'' ''fork-1'' 14],
      next_id = 6, now = 100\<rparr>"

definition mug_shop :: database where
  "mug_shop = \<lparr>rows = [kitchen_product 1 ''Mug'' ''mug-1'' 10], next_id = 2, now = 100\<rparr>"

definition pictured_shop :: database where
  "pictured_shop =
     \<lparr>rows = [(kitchen_product 1 ''Mug'' ''mug-1'' 10)\<lparr>c_imageUrl := Some ''/uploads/old.png''\<rparr>],
      next_id = 2, now = 100\<rparr>"

definition empty_shop :: database where
  "empty_shop = \<lparr>rows = [], next_id = 1, now = 100\<rparr>"

definition no_filters :: products_query where
  "no_filters =
     \<lparr>search = None, category = None, minPrice = None, maxPrice = None, page = None, limit = None\<rparr>"

definition example_body :: product_body where
  "example_body =
     \<lparr>b_name = Some ''Ladle'', b_slug = Some ''ladle-1'', b_description = None,
      b_price = Some ''9.99'', b_category = Some ''kitchen'', b_stock = None, b_imageUrl = None\<rparr>"

section \<open>Properties\<close>

subsection \<open>Auxiliary facts about strings\<close>

lemma startsWith_Cons: "startsWith s (c # p) \<longleftrightarrow> (\<exists>t. s = c # t \<and> startsWith t p)"
  by (cases s) (auto simp: startsWith_def)

lemma startsWith_Nil [simp]: "startsWith s []"
  by (simp add: startsWith_def)

subsection \<open>Decimal numerals are read back\<close>

lemma isDigit_10: "isDigit 10 c \<longleftrightarrow> 48 \<le> (of_char c :: nat) \<and> (of_char c :: nat) \<le> 57"
  by (auto simp: isDigit_def digitValue_def Let_def)

lemma of_char_digit_char: "d < 10 \<Longrightarrow> (of_char (digit_char d) :: nat) = 48 + d"
  by (simp add: digit_char_def)

lemma digitValue_digit_char: "d < 10 \<Longrightarrow> digitValue (digit_char d) = d"
  by (simp add: digitValue_def of_char_digit_char)

lemma isDigit_digit_char: "d < 10 \<Longrightarrow> isDigit 10 (digit_char d)"
  by (simp add: isDigit_10 of_char_digit_char)

lemma digitsValue_snoc: "digitsValue r (ds @ [c]) = digitsValue r ds * r + digitValue c"
  by (simp add: digitsValue_def)

lemma decimal_digits: "list_all (isDigit 10) (decimal n)"
  by (induction n rule: decimal.induct) (subst decimal.simps, simp add: isDigit_digit_char)

lemma decimal_nonempty: "decimal n \<noteq> []"
  by (subst decimal.simps) simp

lemma digitsValue_decimal: "digitsValue 10 (decimal n) = n"
proof (induction n rule: decimal.induct)
  case (1 n)
  show ?case
  proof (cases "n < 10")
    case True
    then show ?thesis
      by (subst decimal.simps) (simp add: digitsValue_def digitValue_digit_char)
  next
    case False
    with 1 show ?thesis
      by (subst decimal.simps) (simp add: digitsValue_snoc digitValue_digit_char)
  qed
qed

lemma digit_not_space: "isDigit 10 c \<Longrightarrow> \<not> isWhiteSpace c"
  by (auto simp: isDigit_10 isWhiteSpace_def)

lemma digit_chars:
  assumes "isDigit 10 c"
  shows "c \<noteq> CHR ''-''" "c \<noteq> CHR ''+''" "c \<noteq> CHR ''.''" "c \<noteq> CHR ''I''" "c \<noteq> CHR ''x''"
    "c \<noteq> CHR ''X''" "c \<noteq> CHR ''o''" "c \<noteq> CHR ''O''" "c \<noteq> CHR ''b''" "c \<noteq> CHR ''B''"
  using assms by (auto simp: isDigit_10)

lemma takeWhile_all: "list_all P xs \<Longrightarrow> takeWhile P xs = xs"
  by (induction xs) auto

lemma dropWhile_all: "list_all P xs \<Longrightarrow> dropWhile P xs = []"
  by (induction xs) auto


lemma no_radix_prefix:
  assumes "list_all (isDigit 10) ds"
  shows "\<not> prefix ''0x'' ds" "\<not> prefix ''0X'' ds" "\<not> prefix ''0o'' ds" "\<not> prefix ''0O'' ds"
    "\<not> prefix ''0b'' ds" "\<not> prefix ''0B'' ds" "\<not> prefix ''Infinity'' ds"
  using assms by (auto simp: prefix_def dest: digit_chars)

lemma parseInt_str_digits:
  assumes "ds \<noteq> []" "list_all (isDigit 10) ds"
  shows "parseInt_str ds = Fin (of_nat (digitsValue 10 ds))"
proof -
  obtain c cs where ds: "ds = c # cs" using assms(1) by (cases ds) auto
  have c: "isDigit 10 c" using assms(2) ds by simp
  have w: "dropWhile isWhiteSpace ds = ds" using ds c by (simp add: digit_not_space)
  have s: "signed ds = (False, ds)" using ds digit_chars[OF c] by (simp add: signed_def)
  show ?thesis
    using assms no_radix_prefix[OF assms(2)]
    by (simp add: parseInt_str_def w s takeWhile_all)
qed


lemma parseInt_str_decimal: "parseInt_str (decimal n) = Fin (of_nat n)"
  by (simp add: parseInt_str_digits decimal_nonempty decimal_digits digitsValue_decimal)


lemma parseFloat_str_digits:
  assumes "ds \<noteq> []" "list_all (isDigit 10) ds"
  shows "parseFloat_str ds = Fin (of_nat (digitsValue 10 ds))"
proof -
  obtain c cs where ds: "ds = c # cs" using assms(1) by (cases ds) auto
  have c: "isDigit 10 c" using assms(2) ds by simp
  have w: "dropWhile isWhiteSpace ds = ds" using ds c by (simp add: digit_not_space)
  have s: "signed ds = (False, ds)" using ds digit_chars[OF c] by (simp add: signed_def)
  have d: "decimalPrefix ds = Some (Fin (of_nat (digitsValue 10 ds)), [])"
    using assms no_radix_prefix[OF assms(2)]
    by (simp add: decimalPrefix_def takeWhile_all dropWhile_all exponentPart_def digitsValue_def)
  show ?thesis by (simp add: parseFloat_str_def w s d)
qed

lemma parseFloat_str_decimal: "parseFloat_str (decimal n) = Fin (of_nat n)"
  by (simp add: parseFloat_str_digits decimal_nonempty decimal_digits digitsValue_decimal)


subsection \<open>The statements in terms of the predicates\<close>

lemma predicate_for_simps:
  "predicate_for None f = []" "predicate_for (Some []) f = []"
  "s \<noteq> [] \<Longrightarrow> predicate_for (Some s) f = [f s]"
  by (simp_all add: predicate_for_def supplied_def)

lemma predicate_for_truthy:
  "predicate_for v f = (if truthy v then [f (template v)] else [])"
  by (cases v) (simp_all add: predicate_for_def supplied_def truthy_def template_def)

lemma conjoined_simps [simp]:
  "conjoined [] = []" "conjoined (c # cs) = '' AND '' @ clause_text c @ conjoined cs"
  "conjoined (cs @ ds) = conjoined cs @ conjoined ds"
  by (simp_all add: conjoined_def)

lemma bound_simps [simp]:
  "bound [] = []" "bound (c # cs) = clause_params c @ bound cs"
  "bound (cs @ ds) = bound cs @ bound ds"
  by (simp_all add: bound_def)

lemma add_search_fields:
  "query (add_search q st) = query st @ conjoined (predicate_for (search q)
       (\<lambda>s. NameOrDescriptionLike (PText (Some (''%'' @ s @ ''%''))) (PText (Some (''%'' @ s @ ''%'')))))"
  "countQuery (add_search q st) = countQuery st @ conjoined (predicate_for (search q)
       (\<lambda>s. NameOrDescriptionLike (PText (Some (''%'' @ s @ ''%''))) (PText (Some (''%'' @ s @ ''%'')))))"
  "params (add_search q st) = params st @ bound (predicate_for (search q)
       (\<lambda>s. NameOrDescriptionLike (PText (Some (''%'' @ s @ ''%''))) (PText (Some (''%'' @ s @ ''%'')))))"
  "countParams (add_search q st) = countParams st @ bound (predicate_for (search q)
       (\<lambda>s. NameOrDescriptionLike (PText (Some (''%'' @ s @ ''%''))) (PText (Some (''%'' @ s @ ''%'')))))"
  by (simp_all add: add_search_def predicate_for_truthy clause_text_def clause_params_def Let_def)

lemma add_category_fields:
  "query (add_category q st) = query st @ conjoined (predicate_for (category q) (\<lambda>s. CategoryIs (PText (Some s))))"
  "countQuery (add_category q st) = countQuery st @ conjoined (predicate_for (category q) (\<lambda>s. CategoryIs (PText (Some s))))"
  "params (add_category q st) = params st @ bound (predicate_for (category q) (\<lambda>s. CategoryIs (PText (Some s))))"
  "countParams (add_category q st) = countParams st @ bound (predicate_for (category q) (\<lambda>s. CategoryIs (PText (Some s))))"
  by (cases "category q"; simp add: add_category_def predicate_for_truthy clause_text_def clause_params_def
        truthy_def template_def)+

lemma add_minPrice_fields:
  "query (add_minPrice q st) = query st @ conjoined (predicate_for (minPrice q) (\<lambda>s. PriceAtLeast (PNum (parseFloat_str s))))"
  "countQuery (add_minPrice q st) = countQuery st @ conjoined (predicate_for (minPrice q) (\<lambda>s. PriceAtLeast (PNum (parseFloat_str s))))"
  "params (add_minPrice q st) = params st @ bound (predicate_for (minPrice q) (\<lambda>s. PriceAtLeast (PNum (parseFloat_str s))))"
  "countParams (add_minPrice q st) = countParams st @ bound (predicate_for (minPrice q) (\<lambda>s. PriceAtLeast (PNum (parseFloat_str s))))"
  by (simp_all add: add_minPrice_def predicate_for_truthy clause_text_def clause_params_def
        parseFloat_field_def)

lemma add_maxPrice_fields:
  "query (add_maxPrice q st) = query st @ conjoined (predicate_for (maxPrice q) (\<lambda>s. PriceAtMost (PNum (parseFloat_str s))))"
  "countQuery (add_maxPrice q st) = countQuery st @ conjoined (predicate_for (maxPrice q) (\<lambda>s. PriceAtMost (PNum (parseFloat_str s))))"
  "params (add_maxPrice q st) = params st @ bound (predicate_for (maxPrice q) (\<lambda>s. PriceAtMost (PNum (parseFloat_str s))))"
  "countParams (add_maxPrice q st) = countParams st @ bound (predicate_for (maxPrice q) (\<lambda>s. PriceAtMost (PNum (parseFloat_str s))))"
  by (simp_all add: add_maxPrice_def predicate_for_truthy clause_text_def clause_params_def
        parseFloat_field_def)

lemma filter_statement_fields:
  "query (filter_statement q) = ''SELECT * FROM products WHERE 1=1'' @ conjoined (spec_predicates q)"
  "countQuery (filter_statement q) = ''SELECT COUNT(*) as total FROM products WHERE 1=1'' @ conjoined (spec_predicates q)"
  "params (filter_statement q) = bound (spec_predicates q)"
  "countParams (filter_statement q) = bound (spec_predicates q)"
  by (simp_all add: filter_statement_def add_search_fields add_category_fields add_minPrice_fields
        add_maxPrice_fields initial_statement_def spec_predicates_def)

lemma list_statement_fields:
  "query (list_statement q) = ''SELECT * FROM products WHERE 1=1'' @ conjoined (spec_predicates q)
      @ '' ORDER BY createdAt DESC LIMIT ? OFFSET ?''"
  "countQuery (list_statement q) = ''SELECT COUNT(*) as total FROM products WHERE 1=1'' @ conjoined (spec_predicates q)"
  "params (list_statement q) = bound (spec_predicates q)
      @ [PNum (parseInt (limit_value q)), PNum (parseInt (Num (offset q)))]"
  "countParams (list_statement q) = bound (spec_predicates q)"
  by (simp_all add: list_statement_def filter_statement_fields Let_def)

lemma placeholders_clause: "count_list (clause_text c) CHR ''?'' = length (clause_params c)"
  by (cases c) (simp_all add: clause_text_def clause_params_def)

lemma placeholders: "count_list (conjoined cs) CHR ''?'' = length (bound cs)"
  by (induction cs) (simp_all add: placeholders_clause)

lemma length_predicate_for: "length (predicate_for v f) = (if supplied v then 1 else 0)"
  by (cases v) (simp_all add: predicate_for_def supplied_def)

subsection \<open>The engine on the statements of the list\<close>

lemma pool_query_list:
  "pool_query chk db (''SELECT * FROM products WHERE 1=1'' @ t) ps = select_list db t ps"
  by (simp add: pool_query_def)

lemma pool_query_count:
  "pool_query chk db (''SELECT COUNT(*) as total FROM products WHERE 1=1'' @ t) ps = select_count db t ps"
  by (simp add: pool_query_def)

lemma conditions_clause:
  "conditions acc ('' AND '' @ clause_text c @ t) (clause_params c @ ps) = conditions (acc @ [c]) t ps"
  by (cases c; cases ps) (simp_all add: clause_text_def clause_params_def)

lemma conditions_conjoined:
  "conditions acc (conjoined cs @ t) (bound cs @ ps) = conditions (acc @ cs) t ps"
proof (induction cs arbitrary: acc)
  case Nil
  show ?case by simp
next
  case (Cons c cs)
  have "conditions acc (conjoined (c # cs) @ t) (bound (c # cs) @ ps)
      = conditions acc ('' AND '' @ clause_text c @ (conjoined cs @ t)) (clause_params c @ (bound cs @ ps))"
    by (simp only: conjoined_simps bound_simps append_assoc)
  also have "\<dots> = conditions (acc @ [c]) (conjoined cs @ t) (bound cs @ ps)"
    by (rule conditions_clause)
  also have "\<dots> = conditions ((acc @ [c]) @ cs) t ps"
    by (rule Cons.IH)
  finally show ?case by simp
qed

lemma conditions_order:
  "conditions acc '' ORDER BY createdAt DESC LIMIT ? OFFSET ?'' ps
     = (acc, '' ORDER BY createdAt DESC LIMIT ? OFFSET ?'', ps)"
  by (cases "(acc, '' ORDER BY createdAt DESC LIMIT ? OFFSET ?'', ps)" rule: conditions.cases) simp_all

lemma conditions_end: "conditions acc [] ps = (acc, [], ps)"
  by (cases "(acc, [] :: string, ps)" rule: conditions.cases) simp_all

lemma select_count_conjoined:
  "select_count db (conjoined cs) (bound cs) =
     (case List.find (\<lambda>c. condition_error c \<noteq> None) cs of
        Some c \<Rightarrow> Inl (the (condition_error c))
      | None \<Rightarrow> Inr (db, Total (length (matching cs (rows db)))))"
  using conditions_conjoined [of "[]" cs "[]" "[]"]
  by (simp add: select_count_def conditions_end)

lemma select_list_conjoined:
  "select_list db (conjoined cs @ '' ORDER BY createdAt DESC LIMIT ? OFFSET ?'') (bound cs @ [l, off]) = Inr (db', r)
     \<Longrightarrow> db' = db"
  using conditions_conjoined [of "[]" cs "'' ORDER BY createdAt DESC LIMIT ? OFFSET ?''" "[l, off]"]
  by (auto simp: select_list_def conditions_order split: option.splits if_splits)

lemma list_queries:
  "pool_query chk db (query (list_statement q)) (params (list_statement q))
     = select_list db (conjoined (spec_predicates q) @ '' ORDER BY createdAt DESC LIMIT ? OFFSET ?'')
         (bound (spec_predicates q) @ [PNum (parseInt (limit_value q)), PNum (parseInt (Num (offset q)))])"
  "pool_query chk db (countQuery (list_statement q)) (countParams (list_statement q))
     = select_count db (conjoined (spec_predicates q)) (bound (spec_predicates q))"
  unfolding list_statement_fields
  by (rule pool_query_list, rule pool_query_count [of _ _ "conjoined (spec_predicates q)", simplified append_Nil2])

lemma listProducts_ok:
  assumes "listProducts chk db req q = \<lparr>status = 200, body = ListJson rs pg\<rparr>"
  shows "pg = \<lparr>total = length (matching (spec_predicates q) (rows db)),
               page_number = json_number (parseInt (page_value q)),
               page_size = json_number (parseInt (limit_value q)),
               totalPages = json_number (Math_ceil (js_div
                  (Fin (of_nat (length (matching (spec_predicates q) (rows db)))))
                  (ToNumber (limit_value q))))\<rparr>"
  using assms unfolding listProducts_def Let_def list_queries select_count_conjoined
  by (auto split: sum.splits result.splits option.splits dest!: select_list_conjoined)

subsection \<open>Patterns without special characters\<close>

lemma like_tokens_Cons:
  "xs \<noteq> [] \<Longrightarrow> like_tokens (c # xs) =
     (if c = CHR ''%'' then AnySequence # like_tokens xs
      else if c = CHR ''_'' then AnyOne # like_tokens xs
      else if c = CHR 0x5C then Literal (hd xs) # like_tokens (tl xs)
      else Literal c # like_tokens xs)"
  by (cases xs) simp_all

lemma like_tokens_plain:
  "\<not> list_ex like_special t \<Longrightarrow> like_tokens (t @ ''%'') = map Literal t @ [AnySequence]"
  by (induction t) (simp_all add: like_tokens_Cons like_special_def)

lemma like_tokens_wrapped:
  "\<not> list_ex like_special t \<Longrightarrow>
     like_tokens (''%'' @ t @ ''%'') = AnySequence # map Literal t @ [AnySequence]"
  using like_tokens_plain [of t] by (simp add: like_tokens_Cons)

lemma like_match_any: "like_match [AnySequence] s"
  by (induction s) simp_all

lemma like_match_AnySequence:
  "like_match (AnySequence # p) s \<longleftrightarrow> (\<exists>u v. s = u @ v \<and> like_match p v)"
proof (induction s)
  case Nil
  show ?case by simp
next
  case (Cons x s)
  show ?case
  proof
    assume "like_match (AnySequence # p) (x # s)"
    then consider "like_match p (x # s)" | "like_match (AnySequence # p) s" by auto
    then show "\<exists>u v. x # s = u @ v \<and> like_match p v"
    proof cases
      case 1
      then have "x # s = [] @ (x # s) \<and> like_match p (x # s)" by simp
      then show ?thesis by blast
    next
      case 2
      with Cons obtain u v where "s = u @ v" "like_match p v" by auto
      then have "x # s = (x # u) @ v \<and> like_match p v" by simp
      then show ?thesis by blast
    qed
  next
    assume "\<exists>u v. x # s = u @ v \<and> like_match p v"
    then obtain u v where uv: "x # s = u @ v" "like_match p v" by auto
    show "like_match (AnySequence # p) (x # s)"
    proof (cases u)
      case Nil
      with uv have "like_match p (x # s)" by simp
      then show ?thesis by simp
    next
      case (Cons y u')
      with uv have "s = u' @ v" by simp
      with uv(2) Cons.IH have "like_match (AnySequence # p) s" by blast
      then show ?thesis by simp
    qed
  qed
qed

lemma like_match_literals:
  "like_match (map Literal t @ p) s
     \<longleftrightarrow> (\<exists>w v. s = w @ v \<and> map lower w = map lower t \<and> like_match p v)"
proof (induction t arbitrary: s)
  case Nil
  show ?case by simp
next
  case (Cons c t)
  show ?case
  proof (cases s)
    case Nil
    then show ?thesis by simp
  next
    case (Cons x s')
    have "like_match (map Literal (c # t) @ p) (x # s')
        \<longleftrightarrow> lower c = lower x \<and> (\<exists>w v. s' = w @ v \<and> map lower w = map lower t \<and> like_match p v)"
      by (simp add: Cons.IH)
    also have "\<dots> \<longleftrightarrow> (\<exists>w v. x # s' = w @ v \<and> map lower w = map lower (c # t) \<and> like_match p v)"
    proof
      assume "lower c = lower x \<and> (\<exists>w v. s' = w @ v \<and> map lower w = map lower t \<and> like_match p v)"
      then obtain w v where "lower c = lower x" "s' = w @ v" "map lower w = map lower t" "like_match p v"
        by auto
      then have "x # s' = (x # w) @ v \<and> map lower (x # w) = map lower (c # t) \<and> like_match p v"
        by simp
      then show "\<exists>w v. x # s' = w @ v \<and> map lower w = map lower (c # t) \<and> like_match p v"
        by blast
    next
      assume "\<exists>w v. x # s' = w @ v \<and> map lower w = map lower (c # t) \<and> like_match p v"
      then obtain w v where wv: "x # s' = w @ v" "map lower w = map lower (c # t)" "like_match p v"
        by blast
      from wv(2) obtain y w' where w: "w = y # w'" "lower y = lower c" "map lower w' = map lower t"
        by (cases w) auto
      from wv(1) w(1) have "x = y" "s' = w' @ v" by simp_all
      with w have "lower c = lower x" "s' = w' @ v" "map lower w' = map lower t" by simp_all
      with wv(3) show "lower c = lower x \<and> (\<exists>w v. s' = w @ v \<and> map lower w = map lower t \<and> like_match p v)"
        by blast
    qed
    finally show ?thesis using Cons by simp
  qed
qed

lemma like_wrapped:
  assumes "\<not> list_ex like_special t"
  shows "like_match (like_tokens (''%'' @ t @ ''%'')) s \<longleftrightarrow> sublist (map lower t) (map lower s)"
proof -
  have "like_match (like_tokens (''%'' @ t @ ''%'')) s
      \<longleftrightarrow> (\<exists>u w v. s = u @ w @ v \<and> map lower w = map lower t)"
    unfolding like_tokens_wrapped [OF assms] like_match_AnySequence like_match_literals
    by (auto simp: like_match_any)
  also have "\<dots> \<longleftrightarrow> sublist (map lower t) (map lower s)"
  proof
    assume "\<exists>u w v. s = u @ w @ v \<and> map lower w = map lower t"
    then obtain u w v where "s = u @ w @ v" "map lower w = map lower t" by auto
    then have "map lower s = map lower u @ map lower t @ map lower v" by simp
    then show "sublist (map lower t) (map lower s)" unfolding sublist_def by blast
  next
    assume "sublist (map lower t) (map lower s)"
    then obtain ps ss where "map lower s = ps @ map lower t @ ss" unfolding sublist_def by blast
    then have "\<exists>u r. s = u @ r \<and> ps = map lower u \<and> map lower t @ ss = map lower r"
      by (simp only: map_eq_append_conv)
    then obtain u r where u: "s = u @ r" "map lower r = map lower t @ ss" by auto
    from u(2) have "\<exists>w v. r = w @ v \<and> map lower t = map lower w \<and> ss = map lower v"
      by (simp only: map_eq_append_conv)
    then obtain w v where "r = w @ v" "map lower w = map lower t" by auto
    with u show "\<exists>u w v. s = u @ w @ v \<and> map lower w = map lower t" by blast
  qed
  finally show ?thesis .
qed

lemma holds_search:
  assumes "\<not> list_ex like_special t"
  shows "holds (NameOrDescriptionLike (PText (Some (''%'' @ t @ ''%''))) (PText (Some (''%'' @ t @ ''%'')))) r
           \<longleftrightarrow> spec_search t r"
  unfolding holds_def spec_search_def contains_ci_def sql_like_def text_of_def
  by (simp add: like_wrapped [OF assms] del: like_tokens.simps append.simps split: option.splits)

subsection \<open>The engine on the statements of the write handlers\<close>

lemma pool_query_insert:
  "pool_query chk db ''INSERT INTO products (name, slug, description, price, category, stock, imageUrl) VALUES (?, ?, ?, ?, ?, ?, ?)'' ps
     = insert_row chk db ps"
  by (simp add: pool_query_def)

lemma pool_query_update:
  "pool_query chk db ''UPDATE products SET name=?, slug=?, description=?, price=?, category=?, stock=?, imageUrl=? WHERE id=?'' ps
     = update_row chk db ps"
  by (simp add: pool_query_def)

lemma pool_query_select_id:
  "pool_query chk db ''SELECT * FROM products WHERE id = ?'' ps = select_by_id db ps"
  by (simp add: pool_query_def)

lemma select_by_id_nat:
  "select_by_id db [PNum (Fin (of_nat i))] = Inr (db, Rows (filter (\<lambda>r. c_id r = i) (rows db)))"
  by (simp add: select_by_id_def is_number_def is_finite_def rat_of_def)

lemma parseInt_str_cases: "parseInt_str s = NaN \<or> (\<exists>r. parseInt_str s = Fin r)"
  by (auto simp: parseInt_str_def Let_def split: prod.splits)

lemma or_zero_parseInt: "\<exists>r. or_zero (parseInt_field v) = Fin r"
  using parseInt_str_cases [of "template v"] by (auto simp: or_zero_def parseInt_field_def)

lemma assign_write_params:
  "assign r (write_params b img) =
     (if is_finite (PNum (parseFloat_field (b_price b))) then Inr (written r b img)
      else Inl (DbError ''ER_BAD_FIELD_ERROR''))"
  using or_zero_parseInt [of "b_stock b"]
  by (auto simp: assign_def write_params_def written_def is_text_def is_number_def is_finite_def text_of_def)

lemma filter_find: "filter P xs = r # rs \<Longrightarrow> List.find P xs = Some r"
  by (induction xs) (auto split: if_splits)

lemma find_filter: "List.find P xs = Some r \<Longrightarrow> \<exists>rs. filter P xs = r # rs"
  by (induction xs) (auto split: if_splits)

lemma find_map_replace:
  assumes "List.find (\<lambda>r. c_id r = i) xs = Some r" "c_id r' = i"
  shows "List.find (\<lambda>x. c_id x = i) (map (\<lambda>x. if c_id x = c_id r then r' else x) xs) = Some r'"
proof -
  have i: "c_id r = i" using assms(1) by (auto simp: find_Some_iff)
  show ?thesis using assms unfolding i by (induction xs) (auto split: if_splits)
qed

lemma c_id_written [simp]: "c_id (written r b img) = c_id r"
  by (simp add: written_def)

lemma insert_row_write:
  "insert_row chk db (write_params b img) =
     (if \<not> is_finite (PNum (parseFloat_field (b_price b))) then Inl (DbError ''ER_BAD_FIELD_ERROR'')
      else if \<not> chk (written (blank_row (next_id db) (now db)) b img)
        then Inl (DbError ''ER_CHECK_CONSTRAINT_VIOLATED'')
      else if slug_taken (rows db) (written (blank_row (next_id db) (now db)) b img)
        then Inl (DbError ''ER_DUP_ENTRY'')
      else Inr (db\<lparr>rows := rows db @ [written (blank_row (next_id db) (now db)) b img],
                   next_id := Suc (next_id db)\<rparr>, Header (next_id db) 1))"
  by (simp add: insert_row_def assign_write_params)

lemma update_row_write:
  assumes "stored db i = Some r"
  shows "update_row chk db (write_params b img @ [PNum (Fin (of_nat i))]) =
     (if \<not> is_finite (PNum (parseFloat_field (b_price b))) then Inl (DbError ''ER_BAD_FIELD_ERROR'')
      else if \<not> chk (written r b img) then Inl (DbError ''ER_CHECK_CONSTRAINT_VIOLATED'')
      else if slug_taken (rows db) (written r b img) then Inl (DbError ''ER_DUP_ENTRY'')
      else Inr (db\<lparr>rows := map (\<lambda>x. if c_id x = c_id r then written r b img else x) (rows db)\<rparr>,
                Header 0 1))"
proof -
  have len: "length (write_params b img) = 7"
    by (simp add: write_params_def)
  have f: "List.find (\<lambda>r. of_nat (c_id r) = rat_of (PNum (Fin (of_nat i)))) (rows db) = Some r"
    using assms by (simp add: stored_def rat_of_def)
  show ?thesis
    unfolding update_row_def
    by (simp add: len f assign_write_params is_number_def is_finite_def del: of_nat_eq_iff)
qed

lemma createProduct_created:
  assumes "createProduct chk db req b up = (db', resp)" "status resp = 201"
  shows "db' = db\<lparr>rows := rows db @ [written (blank_row (next_id db) (now db)) b
                       (finalImageUrl None up (b_imageUrl b))],
                  next_id := Suc (next_id db)\<rparr>
     \<and> is_finite (PNum (parseFloat_field (b_price b)))"
  using assms unfolding createProduct_def pool_query_insert pool_query_select_id insert_row_write
    select_by_id_nat
  by (auto simp: create_catch_def split: if_splits list.splits)

lemma updateProduct_updated:
  assumes "updateProduct chk db req i b up = (db', resp)" "status resp = 200"
  shows "\<exists>r. stored db i = Some r
     \<and> stored db' i = Some (written r b (finalImageUrl (c_imageUrl r) up (b_imageUrl b)))
     \<and> is_finite (PNum (parseFloat_field (b_price b)))"
proof (cases "filter (\<lambda>r. c_id r = i) (rows db)")
  case Nil
  with assms show ?thesis
    unfolding updateProduct_def pool_query_select_id select_by_id_nat by (auto simp: update_catch_def)
next
  case (Cons r rs)
  then have st: "stored db i = Some r" by (simp add: stored_def filter_find)
  let ?r' = "written r b (finalImageUrl (c_imageUrl r) up (b_imageUrl b))"
  have "c_id r = i" using st by (auto simp: stored_def find_Some_iff)
  then have "stored (db\<lparr>rows := map (\<lambda>x. if c_id x = c_id r then ?r' else x) (rows db)\<rparr>) i = Some ?r'"
    using st find_map_replace [of i "rows db" r ?r'] by (simp add: stored_def)
  with assms Cons st show ?thesis
    unfolding updateProduct_def pool_query_select_id pool_query_update select_by_id_nat
    by (auto simp: update_row_write update_catch_def split: if_splits list.splits)
qed

lemma updateProduct_status:
  "status (snd (updateProduct chk db req i b up)) \<in> {200, 404, 500}"
  unfolding updateProduct_def pool_query_select_id select_by_id_nat
  by (auto simp: update_catch_def split: sum.splits list.splits result.splits prod.splits)


subsection \<open>Further facts about the handlers\<close>

lemma matching_Cons: "matching (c # cs) rs = filter (holds c) (matching cs rs)"
  by (auto simp: matching_def intro: filter_cong)

lemma spec_predicates_search:
  assumes "search q = Some s" "s \<noteq> []"
  shows "spec_predicates q =
     NameOrDescriptionLike (PText (Some (''%'' @ s @ ''%''))) (PText (Some (''%'' @ s @ ''%'')))
       # spec_predicates (q\<lparr>search := None\<rparr>)"
  using assms unfolding spec_predicates_def by (simp add: predicate_for_simps)

lemma listProducts_data:
  assumes "listProducts chk db req q = \<lparr>status = 200, body = ListJson data pg\<rparr>"
  shows "set data \<subseteq> withFullUrl req ` set (matching (spec_predicates q) (rows db))"
proof -
  have sub: "set (take n (drop k (rev (sort_key c_createdAt xs)))) \<subseteq> set xs" for n k and xs :: "product list"
    using set_take_subset [of n "drop k (rev (sort_key c_createdAt xs))"]
      set_drop_subset [of k "rev (sort_key c_createdAt xs)"] by auto
  have "\<exists>n k. data = map (withFullUrl req)
      (take n (drop k (rev (sort_key c_createdAt (matching (spec_predicates q) (rows db))))))"
    using assms conditions_conjoined [of "[]" "spec_predicates q"
        "'' ORDER BY createdAt DESC LIMIT ? OFFSET ?''"
        "[PNum (parseInt (limit_value q)), PNum (parseInt (Num (offset q)))]"]
    unfolding listProducts_def Let_def list_queries select_count_conjoined
    by (auto simp: select_list_def conditions_order
        split: sum.splits result.splits option.splits if_splits) blast
  then obtain n k where "data = map (withFullUrl req)
      (take n (drop k (rev (sort_key c_createdAt (matching (spec_predicates q) (rows db))))))"
    by blast
  then show ?thesis using sub [of n k "matching (spec_predicates q) (rows db)"] by auto
qed

lemma truthy_supplied_iff: "truthy v = supplied v"
  by (cases v) (simp_all add: truthy_def supplied_def)

lemma trim_Nil: "trim [] = []"
  by (simp add: trim_def)

lemma finalImageUrl_priority:
  "finalImageUrl initial up v =
     (case up of
        Some f \<Rightarrow> Some (''/uploads/'' @ filename f)
      | None \<Rightarrow>
          (case v of
             None \<Rightarrow> initial
           | Some u \<Rightarrow> if trim u = [] then initial else Some (trim u)))"
  by (auto simp: finalImageUrl_def truthy_def template_def trim_Nil split: option.splits)

lemma c_imageUrl_written [simp]: "c_imageUrl (written r b img) = img"
  by (simp add: written_def)

lemma parseInt_undefined: "parseInt_field None = NaN"
  by code_simp

lemma create_duplicate_slug:
  assumes "supplied (b_name b)" "supplied (b_slug b)" "supplied (b_price b)" "supplied (b_category b)"
    and "is_finite (PNum (parseFloat_field (b_price b)))"
    and "chk (written (blank_row (next_id db) (now db)) b (finalImageUrl None up (b_imageUrl b)))"
    and "slug_taken (rows db)
           (written (blank_row (next_id db) (now db)) b (finalImageUrl None up (b_imageUrl b)))"
  shows "createProduct chk db req b up
           = (db, \<lparr>status = 400, body = ErrorJson ''Product slug already exists''\<rparr>)"
  using assms unfolding createProduct_def pool_query_insert insert_row_write
  by (simp add: truthy_supplied_iff code_def create_catch_def)

lemma update_duplicate_slug:
  assumes "stored db i = Some r"
    and "is_finite (PNum (parseFloat_field (b_price b)))"
    and "chk (written r b (finalImageUrl (c_imageUrl r) up (b_imageUrl b)))"
    and "slug_taken (rows db) (written r b (finalImageUrl (c_imageUrl r) up (b_imageUrl b)))"
  shows "updateProduct chk db req i b up
           = (db, \<lparr>status = 500, body = ErrorJson ''Failed to update product''\<rparr>)"
proof -
  obtain rs where f: "filter (\<lambda>r. c_id r = i) (rows db) = r # rs"
    using assms(1) find_filter [of "\<lambda>r. c_id r = i" "rows db" r] by (auto simp: stored_def)
  show ?thesis
    using assms unfolding updateProduct_def pool_query_select_id pool_query_update select_by_id_nat f
    by (simp add: update_row_write update_catch_def)
qed

subsection \<open>The image URL helper\<close>

text \<open>
  C4. \<^verbatim>\<open>getImageUrl\<close> returns null when no reference is stored; it returns a reference
  that begins with \<^verbatim>\<open>http://\<close> or \<^verbatim>\<open>https://\<close> unchanged, whatever the request; and for
  a relative upload path it returns scheme, \<^verbatim>\<open>://\<close>, host and the stored path. The helper
  reads nothing but its two arguments and writes nothing, so it is the function
  \<^const>\<open>getImageUrl\<close> of the stored reference and of the request's scheme and host.
\<close>

theorem getImageUrl_contract:
  "getImageUrl None req = None
   \<and> (startsWith u ''http://'' \<or> startsWith u ''https://'' \<longrightarrow> getImageUrl (Some u) req = Some u)
   \<and> (startsWith u ''/uploads/'' \<and> host req = Some h
        \<longrightarrow> getImageUrl (Some u) req = Some (protocol req @ ''://'' @ h @ u))"
  by (auto simp: getImageUrl_def truthy_def startsWith_Cons template_def split: option.splits)

theorem getImageUrl_contract_witness:
  "getImageUrl None \<lparr>protocol = ''https'', host = Some ''shop.test''\<rparr> = None
   \<and> startsWith ''http://cdn.test/a.png'' ''http://''
   \<and> getImageUrl (Some ''http://cdn.test/a.png'') \<lparr>protocol = ''https'', host = Some ''shop.test''\<rparr>
       = Some ''http://cdn.test/a.png''
   \<and> startsWith ''/uploads/1-2.png'' ''/uploads/''
   \<and> getImageUrl (Some ''/uploads/1-2.png'') \<lparr>protocol = ''https'', host = Some ''shop.test''\<rparr>
       = Some ''https://shop.test/uploads/1-2.png''"
  using getImageUrl_contract [of "\<lparr>protocol = ''https'', host = Some ''shop.test''\<rparr>"
      "''http://cdn.test/a.png''" "''shop.test''"]
    getImageUrl_contract [of "\<lparr>protocol = ''https'', host = Some ''shop.test''\<rparr>"
      "''/uploads/1-2.png''" "''shop.test''"]
  by (simp add: startsWith_def)

text \<open>
  C9. A non-empty stored reference that begins with none of \<^verbatim>\<open>http://\<close>, \<^verbatim>\<open>https://\<close> and
  \<^verbatim>\<open>/uploads/\<close> is returned unchanged.
\<close>

theorem getImageUrl_fallthrough:
  "u \<noteq> [] \<Longrightarrow> \<not> startsWith u ''http://'' \<Longrightarrow> \<not> startsWith u ''https://''
     \<Longrightarrow> \<not> startsWith u ''/uploads/'' \<Longrightarrow> getImageUrl (Some u) req = Some u"
  by (simp add: getImageUrl_def truthy_def)

theorem getImageUrl_fallthrough_witness:
  "''img/mug.png'' \<noteq> [] \<and> \<not> startsWith ''img/mug.png'' ''http://''
   \<and> \<not> startsWith ''img/mug.png'' ''https://'' \<and> \<not> startsWith ''img/mug.png'' ''/uploads/''
   \<and> getImageUrl (Some ''img/mug.png'') \<lparr>protocol = ''http'', host = Some ''localhost:3001''\<rparr>
       = Some ''img/mug.png''"
  using getImageUrl_fallthrough [of "''img/mug.png''" "\<lparr>protocol = ''http'', host = Some ''localhost:3001''\<rparr>"]
  by (simp add: startsWith_def)

subsection \<open>The product list\<close>

text \<open>
  C1. Whatever the parameters \<^verbatim>\<open>search\<close>, \<^verbatim>\<open>category\<close>, \<^verbatim>\<open>minPrice\<close> and \<^verbatim>\<open>maxPrice\<close>, the data
  statement and the count statement carry the same predicates: the predicates of
  \<^const>\<open>spec_predicates\<close>, one for each parameter that is present and not empty and none for
  the others, each joined with \<^verbatim>\<open>AND\<close>. The parameters of the count statement are those of
  the predicates, in the order of the predicates; the data statement binds the same, then
  the limit and the offset. In both statements there are as many placeholders as parameters.
\<close>

theorem list_statements_share_predicates:
  "query (list_statement q) =
      ''SELECT * FROM products WHERE 1=1'' @ conjoined (spec_predicates q)
        @ '' ORDER BY createdAt DESC LIMIT ? OFFSET ?''
   \<and> countQuery (list_statement q) =
      ''SELECT COUNT(*) as total FROM products WHERE 1=1'' @ conjoined (spec_predicates q)
   \<and> countParams (list_statement q) = bound (spec_predicates q)
   \<and> params (list_statement q) = bound (spec_predicates q)
        @ [PNum (parseInt (limit_value q)), PNum (parseInt (Num (offset q)))]
   \<and> length (spec_predicates q) = length (filter supplied [search q, category q, minPrice q, maxPrice q])
   \<and> count_list (query (list_statement q)) CHR ''?'' = length (params (list_statement q))
   \<and> count_list (countQuery (list_statement q)) CHR ''?'' = length (countParams (list_statement q))"
  by (simp add: list_statement_fields placeholders spec_predicates_def length_predicate_for)

theorem list_statements_share_predicates_witness:
  "query (list_statement (no_filters\<lparr>search := Some ''mu'', category := Some ''kitchen'',
        minPrice := Some ''1'', maxPrice := Some ''9.5'', page := Some ''2'', limit := Some ''2''\<rparr>))
     = ''SELECT * FROM products WHERE 1=1 AND (name LIKE ? OR description LIKE ?) AND category = ? AND price >= ? AND price <= ? ORDER BY createdAt DESC LIMIT ? OFFSET ?''
   \<and> countQuery (list_statement (no_filters\<lparr>search := Some ''mu'', category := Some ''kitchen'',
        minPrice := Some ''1'', maxPrice := Some ''9.5'', page := Some ''2'', limit := Some ''2''\<rparr>))
     = ''SELECT COUNT(*) as total FROM products WHERE 1=1 AND (name LIKE ? OR description LIKE ?) AND category = ? AND price >= ? AND price <= ?''
   \<and> countParams (list_statement (no_filters\<lparr>search := Some ''mu'', category := Some ''kitchen'',
        minPrice := Some ''1'', maxPrice := Some ''9.5'', page := Some ''2'', limit := Some ''2''\<rparr>))
     = [PText (Some ''%mu%''), PText (Some ''%mu%''), PText (Some ''kitchen''), PNum (Fin 1),
        PNum (Fin (19 / 2))]
   \<and> params (list_statement (no_filters\<lparr>search := Some ''mu'', category := Some ''kitchen'',
        minPrice := Some ''1'', maxPrice := Some ''9.5'', page := Some ''2'', limit := Some ''2''\<rparr>))
     = [PText (Some ''%mu%''), PText (Some ''%mu%''), PText (Some ''kitchen''), PNum (Fin 1),
        PNum (Fin (19 / 2)), PNum (Fin 2), PNum (Fin 2)]"
proof -
  let ?q = "no_filters\<lparr>search := Some ''mu'', category := Some ''kitchen'',
        minPrice := Some ''1'', maxPrice := Some ''9.5'', page := Some ''2'', limit := Some ''2''\<rparr>"
  have p: "spec_predicates ?q =
      [NameOrDescriptionLike (PText (Some ''%mu%'')) (PText (Some ''%mu%'')),
       CategoryIs (PText (Some ''kitchen'')), PriceAtLeast (PNum (Fin 1)),
       PriceAtMost (PNum (Fin (19 / 2)))]"
    by code_simp
  have l: "parseInt (limit_value ?q) = Fin 2" by code_simp
  have off: "parseInt (Num (offset ?q)) = Fin 2" by code_simp
  show ?thesis
    using list_statements_share_predicates [of ?q] unfolding p l off
    by (simp add: clause_text_def clause_params_def)
qed



text \<open>
  C2, as stated, fails for a limit of 0. On an empty table the request \<^verbatim>\<open>?limit=0\<close> is
  answered with status 200 and a total of 0, and \<^verbatim>\<open>totalPages\<close> is \<^verbatim>\<open>Math.ceil(0 / 0)\<close>, which
  is not a number and is sent as \<^verbatim>\<open>null\<close>, not 0.
\<close>

theorem totalPages_limit_zero_counterexample:
  "listProducts accept_all empty_shop example_request (no_filters\<lparr>limit := Some ''0''\<rparr>)
     = \<lparr>status = 200,
        body = ListJson []
          \<lparr>total = 0, page_number = Some 1, page_size = Some 0, totalPages = None\<rparr>\<rparr>"
  by code_simp

text \<open>
  C2, amended. When the list is answered with status 200 and the limit is absent or reads
  as a positive integer \<open>l\<close>, the total is the number of rows of the table that satisfy the
  predicates of the query, whatever the page and the limit, and \<^verbatim>\<open>totalPages\<close> is the
  ceiling of the total divided by \<open>l\<close>; it is 0 when the total is 0.
\<close>

theorem totalPages_ceiling:
  assumes "listProducts chk db req q = \<lparr>status = 200, body = ListJson rs pg\<rparr>"
    and "ToNumber (limit_value q) = Fin (of_nat l)" and "0 < l"
  shows "total pg = length (matching (spec_predicates q) (rows db))
     \<and> totalPages pg = Some (of_int \<lceil>of_nat (total pg) / (of_nat l :: rat)\<rceil>)
     \<and> (total pg = 0 \<longrightarrow> totalPages pg = Some 0)"
  using listProducts_ok [OF assms(1)] assms(2,3)
  by (simp add: json_number_def Math_ceil_def)

theorem totalPages_ceiling_witness:
  "listProducts accept_all example_shop example_request
       (no_filters\<lparr>category := Some ''kitchen'', page := Some ''2'', limit := Some ''2''\<rparr>)
     = \<lparr>status = 200,
        body = ListJson [kitchen_product 3 ''Pot'' ''pot-1'' 12, kitchen_product 2 ''Pan'' ''pan-1'' 11]
          \<lparr>total = 5, page_number = Some 2, page_size = Some 2, totalPages = Some 3\<rparr>\<rparr>
   \<and> ToNumber (limit_value (no_filters\<lparr>category := Some ''kitchen'', page := Some ''2'', limit := Some ''2''\<rparr>))
       = Fin (of_nat 2)
   \<and> (0 :: nat) < 2
   \<and> length (matching (spec_predicates (no_filters\<lparr>category := Some ''kitchen'', page := Some ''2'', limit := Some ''2''\<rparr>))
        (rows example_shop)) = 5
   \<and> Some (3 :: rat) = Some (of_int \<lceil>of_nat 5 / (of_nat 2 :: rat)\<rceil>)"
proof -
  let ?q = "no_filters\<lparr>category := Some ''kitchen'', page := Some ''2'', limit := Some ''2''\<rparr>"
  let ?pg = "\<lparr>total = 5, page_number = Some 2, page_size = Some 2, totalPages = Some 3\<rparr>"
  have r: "listProducts accept_all example_shop example_request ?q
     = \<lparr>status = 200,
        body = ListJson [kitchen_product 3 ''Pot'' ''pot-1'' 12, kitchen_product 2 ''Pan'' ''pan-1'' 11] ?pg\<rparr>"
    by code_simp
  have l: "ToNumber (limit_value ?q) = Fin (of_nat 2)" by code_simp
  have z: "(0 :: nat) < 2" by simp
  from totalPages_ceiling [OF r l z] r l show ?thesis by simp
qed

text \<open>
  C8, as stated, fails for a term with a character that \<^verbatim>\<open>LIKE\<close> does not take literally.
  The term \<^verbatim>\<open>_\<close> is bound as the pattern \<^verbatim>\<open>%_%\<close>, which every non-empty name matches: a
  product named \<^verbatim>\<open>Mug\<close> is returned although \<^verbatim>\<open>_\<close> occurs neither in its name nor in its
  description.
\<close>

theorem search_underscore_counterexample:
  "listProducts accept_all mug_shop example_request (no_filters\<lparr>search := Some ''_''\<rparr>)
     = \<lparr>status = 200,
        body = ListJson [kitchen_product 1 ''Mug'' ''mug-1'' 10]
          \<lparr>total = 1, page_number = Some 1, page_size = Some 20, totalPages = Some 1\<rparr>\<rparr>
   \<and> \<not> spec_search ''_'' (kitchen_product 1 ''Mug'' ''mug-1'' 10)"
  by code_simp

text \<open>
  C8, amended. For a search parameter \<open>s\<close> that is present and not empty, both statements
  carry the condition \<^verbatim>\<open>(name LIKE ? OR description LIKE ?)\<close> first, with \<open>s\<close> between two
  \<^verbatim>\<open>%\<close> bound to both placeholders; the rest of the texts is that of the query without a
  search, so the term is in no statement text. When \<open>s\<close> has none of the characters \<^verbatim>\<open>%\<close>,
  \<^verbatim>\<open>_\<close> and backslash, the rows that satisfy the predicates are those that satisfy the
  other predicates and have \<open>s\<close> in the name or the description, without regard to case;
  a successful list counts exactly these rows and returns only such rows.
\<close>

theorem search_predicate_bound:
  assumes "search q = Some s" and "s \<noteq> []"
  shows "query (list_statement q) =
      ''SELECT * FROM products WHERE 1=1 AND (name LIKE ? OR description LIKE ?)''
        @ conjoined (spec_predicates (q\<lparr>search := None\<rparr>)) @ '' ORDER BY createdAt DESC LIMIT ? OFFSET ?''
   \<and> countQuery (list_statement q) =
      ''SELECT COUNT(*) as total FROM products WHERE 1=1 AND (name LIKE ? OR description LIKE ?)''
        @ conjoined (spec_predicates (q\<lparr>search := None\<rparr>))
   \<and> countParams (list_statement q) =
      [PText (Some (''%'' @ s @ ''%'')), PText (Some (''%'' @ s @ ''%''))]
        @ bound (spec_predicates (q\<lparr>search := None\<rparr>))
   \<and> params (list_statement q) =
      [PText (Some (''%'' @ s @ ''%'')), PText (Some (''%'' @ s @ ''%''))]
        @ bound (spec_predicates (q\<lparr>search := None\<rparr>))
        @ [PNum (parseInt (limit_value q)), PNum (parseInt (Num (offset q)))]
   \<and> (\<not> list_ex like_special s \<longrightarrow>
        matching (spec_predicates q) rs
          = filter (spec_search s) (matching (spec_predicates (q\<lparr>search := None\<rparr>)) rs))
   \<and> (\<not> list_ex like_special s \<and> listProducts chk db req q = \<lparr>status = 200, body = ListJson data pg\<rparr>
        \<longrightarrow> total pg = length (filter (spec_search s) (matching (spec_predicates (q\<lparr>search := None\<rparr>)) (rows db)))
          \<and> set data \<subseteq> withFullUrl req ` {r \<in> set (rows db). spec_search s r})"
proof -
  let ?w = "PText (Some (''%'' @ s @ ''%''))"
  note sp = spec_predicates_search [OF assms]
  have m: "matching (spec_predicates q) xs
      = filter (spec_search s) (matching (spec_predicates (q\<lparr>search := None\<rparr>)) xs)"
    if "\<not> list_ex like_special s" for xs
    unfolding sp matching_Cons using holds_search [OF that] by (auto intro: filter_cong)
  have texts: "query (list_statement q) =
      ''SELECT * FROM products WHERE 1=1 AND (name LIKE ? OR description LIKE ?)''
        @ conjoined (spec_predicates (q\<lparr>search := None\<rparr>)) @ '' ORDER BY createdAt DESC LIMIT ? OFFSET ?''"
    "countQuery (list_statement q) =
      ''SELECT COUNT(*) as total FROM products WHERE 1=1 AND (name LIKE ? OR description LIKE ?)''
        @ conjoined (spec_predicates (q\<lparr>search := None\<rparr>))"
    "countParams (list_statement q) = [?w, ?w] @ bound (spec_predicates (q\<lparr>search := None\<rparr>))"
    "params (list_statement q) = [?w, ?w] @ bound (spec_predicates (q\<lparr>search := None\<rparr>))
        @ [PNum (parseInt (limit_value q)), PNum (parseInt (Num (offset q)))]"
    unfolding list_statement_fields sp by (simp_all add: clause_text_def clause_params_def)
  have h: "total pg = length (filter (spec_search s) (matching (spec_predicates (q\<lparr>search := None\<rparr>)) (rows db)))
      \<and> set data \<subseteq> withFullUrl req ` {r \<in> set (rows db). spec_search s r}"
    if ns: "\<not> list_ex like_special s"
      and ok: "listProducts chk db req q = \<lparr>status = 200, body = ListJson data pg\<rparr>"
  proof -
    have t: "total pg = length (filter (spec_search s)
        (matching (spec_predicates (q\<lparr>search := None\<rparr>)) (rows db)))"
      using listProducts_ok [OF ok] m [OF ns] by simp
    have sub: "set (matching (spec_predicates q) (rows db)) \<subseteq> {r \<in> set (rows db). spec_search s r}"
      unfolding m [OF ns] by (auto simp: matching_def)
    have "set data \<subseteq> withFullUrl req ` set (matching (spec_predicates q) (rows db))"
      by (rule listProducts_data [OF ok])
    also have "\<dots> \<subseteq> withFullUrl req ` {r \<in> set (rows db). spec_search s r}"
      by (rule image_mono [OF sub])
    finally show ?thesis using t by simp
  qed
  from texts m h show ?thesis by blast
qed

theorem search_predicate_bound_witness:
  "search (no_filters\<lparr>search := Some ''mu''\<rparr>) = Some ''mu'' \<and> ''mu'' \<noteq> []
   \<and> \<not> list_ex like_special ''mu''
   \<and> listProducts accept_all example_shop example_request (no_filters\<lparr>search := Some ''mu''\<rparr>)
       = \<lparr>status = 200,
          body = ListJson [kitchen_product 1 ''Mug'' ''mug-1'' 10]
            \<lparr>total = 1, page_number = Some 1, page_size = Some 20, totalPages = Some 1\<rparr>\<rparr>
   \<and> countParams (list_statement (no_filters\<lparr>search := Some ''mu''\<rparr>))
       = [PText (Some ''%mu%''), PText (Some ''%mu%'')]
   \<and> length (filter (spec_search ''mu'') (rows example_shop)) = 1"
proof -
  let ?q = "no_filters\<lparr>search := Some ''mu''\<rparr>"
  let ?pg = "\<lparr>total = 1, page_number = Some 1, page_size = Some 20, totalPages = Some (1 :: rat)\<rparr>"
  have s: "search ?q = Some ''mu''" "''mu'' \<noteq> []" by simp_all
  have ns: "\<not> list_ex like_special ''mu''" by code_simp
  have ok: "listProducts accept_all example_shop example_request ?q
       = \<lparr>status = 200, body = ListJson [kitchen_product 1 ''Mug'' ''mug-1'' 10] ?pg\<rparr>"
    by code_simp
  have rest: "spec_predicates (?q\<lparr>search := None\<rparr>) = []" by code_simp
  note T = search_predicate_bound [OF s, of "rows example_shop" accept_all example_shop example_request
      "[kitchen_product 1 ''Mug'' ''mug-1'' 10]" ?pg]
  from T ns ok have "total ?pg = length (filter (spec_search ''mu'')
      (matching (spec_predicates (?q\<lparr>search := None\<rparr>)) (rows example_shop)))" by blast
  then have c: "length (filter (spec_search ''mu'') (rows example_shop)) = 1"
    unfolding rest by (simp add: matching_def)
  from T have "countParams (list_statement ?q) = [PText (Some (''%'' @ ''mu'' @ ''%'')), PText (Some (''%'' @ ''mu'' @ ''%''))]
        @ bound (spec_predicates (?q\<lparr>search := None\<rparr>))" by blast
  then have p: "countParams (list_statement ?q) = [PText (Some ''%mu%''), PText (Some ''%mu%'')]"
    unfolding rest by simp
  from s ns ok p c show ?thesis by simp
qed

subsection \<open>The write handlers\<close>

text \<open>
  C5. After a create answered with status 201, the table has one more row, and after an
  update answered with status 200 the row of the identifier is stored again; in both the
  image reference of that row is: \<^verbatim>\<open>/uploads/\<close> and the name of the uploaded up when there
  is one; otherwise the supplied URL trimmed, unless it trims to the empty string;
  otherwise \<^verbatim>\<open>null\<close> on create and the reference stored before on update.
\<close>

theorem image_reference_priority:
  "(createProduct chk db req b up = (db', resp) \<and> status resp = 201 \<longrightarrow>
      rows db' = rows db @ [last (rows db')]
      \<and> c_imageUrl (last (rows db')) =
          (case up of
             Some f \<Rightarrow> Some (''/uploads/'' @ filename f)
           | None \<Rightarrow>
               (case b_imageUrl b of
                  None \<Rightarrow> None
                | Some u \<Rightarrow> if trim u = [] then None else Some (trim u))))
   \<and> (updateProduct chk db req i b up = (db'', resp') \<and> status resp' = 200 \<longrightarrow>
      (\<exists>r r'. stored db i = Some r \<and> stored db'' i = Some r'
         \<and> c_imageUrl r' =
             (case up of
                Some f \<Rightarrow> Some (''/uploads/'' @ filename f)
              | None \<Rightarrow>
                  (case b_imageUrl b of
                     None \<Rightarrow> c_imageUrl r
                   | Some u \<Rightarrow> if trim u = [] then c_imageUrl r else Some (trim u)))))"
proof (intro conjI impI)
  assume a: "createProduct chk db req b up = (db', resp) \<and> status resp = 201"
  then have d: "db' = db\<lparr>rows := rows db @ [written (blank_row (next_id db) (now db)) b
                       (finalImageUrl None up (b_imageUrl b))],
                  next_id := Suc (next_id db)\<rparr>"
    using createProduct_created [of chk db req b up db' resp] by simp
  show "rows db' = rows db @ [last (rows db')]" by (subst (1 2) d) simp
  show "c_imageUrl (last (rows db')) =
          (case up of
             Some f \<Rightarrow> Some (''/uploads/'' @ filename f)
           | None \<Rightarrow>
               (case b_imageUrl b of
                  None \<Rightarrow> None
                | Some u \<Rightarrow> if trim u = [] then None else Some (trim u)))"
    by (subst d) (simp add: finalImageUrl_priority)
next
  assume "updateProduct chk db req i b up = (db'', resp') \<and> status resp' = 200"
  then obtain r where "stored db i = Some r"
    "stored db'' i = Some (written r b (finalImageUrl (c_imageUrl r) up (b_imageUrl b)))"
    using updateProduct_updated [of chk db req i b up db'' resp'] by blast
  then show "\<exists>r r'. stored db i = Some r \<and> stored db'' i = Some r'
         \<and> c_imageUrl r' =
             (case up of
                Some f \<Rightarrow> Some (''/uploads/'' @ filename f)
              | None \<Rightarrow>
                  (case b_imageUrl b of
                     None \<Rightarrow> c_imageUrl r
                   | Some u \<Rightarrow> if trim u = [] then c_imageUrl r else Some (trim u)))"
    by (simp add: finalImageUrl_priority)
qed

theorem image_reference_priority_witness:
  "status (snd (createProduct accept_all empty_shop example_request
       (example_body\<lparr>b_imageUrl := Some ''  http://cdn.test/l.png ''\<rparr>) None)) = 201
   \<and> c_imageUrl (last (rows (fst (createProduct accept_all empty_shop example_request
       (example_body\<lparr>b_imageUrl := Some ''  http://cdn.test/l.png ''\<rparr>) None))))
       = Some ''http://cdn.test/l.png''
   \<and> status (snd (updateProduct accept_all pictured_shop example_request 1
       (example_body\<lparr>b_imageUrl := Some ''   ''\<rparr>) None)) = 200
   \<and> map_option c_imageUrl (stored pictured_shop 1) = Some (Some ''/uploads/old.png'')
   \<and> map_option c_imageUrl (stored (fst (updateProduct accept_all pictured_shop example_request 1
       (example_body\<lparr>b_imageUrl := Some ''   ''\<rparr>) None)) 1) = Some (Some ''/uploads/old.png'')"
proof -
  let ?b = "example_body\<lparr>b_imageUrl := Some ''  http://cdn.test/l.png ''\<rparr>"
  let ?b' = "example_body\<lparr>b_imageUrl := Some ''   ''\<rparr>"
  let ?C = "createProduct accept_all empty_shop example_request ?b None"
  let ?U = "updateProduct accept_all pictured_shop example_request 1 ?b' None"
  have c: "status (snd ?C) = 201" by code_simp
  have u: "status (snd ?U) = 200" by code_simp
  have t: "trim ''  http://cdn.test/l.png '' = ''http://cdn.test/l.png''" by code_simp
  have t': "trim ''   '' = []" by code_simp
  have s: "map_option c_imageUrl (stored pictured_shop 1) = Some (Some ''/uploads/old.png'')"
    by code_simp
  have bi: "b_imageUrl ?b = Some ''  http://cdn.test/l.png ''" "b_imageUrl ?b' = Some ''   ''"
    by simp_all
  note C = image_reference_priority [where chk = accept_all and db = empty_shop
      and req = example_request and b = ?b and up = None and db' = "fst ?C" and resp = "snd ?C"
      and i = 1 and db'' = "fst ?C" and resp' = "snd ?C", THEN conjunct1]
  from C c have ci: "c_imageUrl (last (rows (fst ?C))) = Some ''http://cdn.test/l.png''"
    unfolding bi by (simp add: t)
  note U = image_reference_priority [where chk = accept_all and db = pictured_shop
      and req = example_request and b = ?b' and up = None and i = 1 and db'' = "fst ?U"
      and resp' = "snd ?U" and db' = "fst ?U" and resp = "snd ?U", THEN conjunct2]
  from U u obtain r r' where "stored pictured_shop 1 = Some r" "stored (fst ?U) 1 = Some r'"
      "c_imageUrl r' = c_imageUrl r"
    unfolding bi by (auto simp: t')
  with s have ui: "map_option c_imageUrl (stored (fst ?U) 1) = Some (Some ''/uploads/old.png'')"
    by simp
  from c ci u s ui show ?thesis by blast
qed

text \<open>
  C7. A create whose name, slug, price or category is absent (or empty) is answered with
  status 400 and the message \<^verbatim>\<open>Missing required fields\<close>, and the store is left as it was.
\<close>

theorem create_missing_required_field:
  "\<not> supplied (b_name b) \<or> \<not> supplied (b_slug b) \<or> \<not> supplied (b_price b) \<or> \<not> supplied (b_category b)
     \<Longrightarrow> createProduct chk db req b up
           = (db, \<lparr>status = 400, body = ErrorJson ''Missing required fields''\<rparr>)"
  by (auto simp: createProduct_def truthy_def supplied_def split: option.splits)

theorem create_missing_required_field_witness:
  "\<not> supplied (b_slug (example_body\<lparr>b_slug := None\<rparr>))
   \<and> createProduct accept_all example_shop example_request (example_body\<lparr>b_slug := None\<rparr>) None
       = (example_shop, \<lparr>status = 400, body = ErrorJson ''Missing required fields''\<rparr>)"
proof -
  have m: "\<not> supplied (b_slug (example_body\<lparr>b_slug := None\<rparr>))" by (simp add: supplied_def)
  then show ?thesis
    using create_missing_required_field [of "example_body\<lparr>b_slug := None\<rparr>" accept_all example_shop
        example_request None]
    by blast
qed

text \<open>
  C10. An update is never answered with status 400. After an update answered with status
  200 the row of the identifier holds the name, slug and category of the form, the price
  read from the form, the description of the form or \<^verbatim>\<open>null\<close> when it is absent or empty,
  and the stock read from the form or 0 when it is absent or reads as no number; none of
  these depends on what the row held before. In particular a stock or a price written as
  the decimal numeral of a natural number below \<open>2\<^sup>5\<^sup>3\<close> is stored as that number.
\<close>

theorem update_overwrites_fields:
  "status (snd (updateProduct chk db req i b up)) \<noteq> 400
   \<and> (updateProduct chk db req i b up = (db', resp) \<and> status resp = 200 \<longrightarrow>
        (\<exists>r'. stored db' i = Some r'
           \<and> c_name r' = b_name b \<and> c_slug r' = b_slug b \<and> c_category r' = b_category b
           \<and> parseFloat_field (b_price b) = Fin (c_price r')
           \<and> c_description r' = (if supplied (b_description b) then b_description b else None)
           \<and> or_zero (parseInt_field (b_stock b)) = Fin (c_stock r')
           \<and> (b_description b = None \<longrightarrow> c_description r' = None)
           \<and> (b_stock b = None \<or> parseInt_field (b_stock b) = NaN \<longrightarrow> c_stock r' = 0)
           \<and> (b_stock b = Some (decimal n) \<and> n < 2 ^ 53 \<longrightarrow> c_stock r' = of_nat n)
           \<and> (b_price b = Some (decimal m) \<and> m < 2 ^ 53 \<longrightarrow> c_price r' = of_nat m)))"
proof (intro conjI impI)
  show "status (snd (updateProduct chk db req i b up)) \<noteq> 400"
    using updateProduct_status [of chk db req i b up] by auto
next
  assume "updateProduct chk db req i b up = (db', resp) \<and> status resp = 200"
  then obtain r where r: "stored db' i = Some (written r b (finalImageUrl (c_imageUrl r) up (b_imageUrl b)))"
    and f: "is_finite (PNum (parseFloat_field (b_price b)))"
    using updateProduct_updated [of chk db req i b up db' resp] by blast
  let ?r' = "written r b (finalImageUrl (c_imageUrl r) up (b_imageUrl b))"
  obtain z where z: "or_zero (parseInt_field (b_stock b)) = Fin z"
    using or_zero_parseInt [of "b_stock b"] by blast
  obtain p where p: "parseFloat_field (b_price b) = Fin p"
    using f by (cases "parseFloat_field (b_price b)") (simp_all add: is_finite_def)
  have z0: "or_zero (parseInt_field (b_stock b)) = Fin 0"
    if "b_stock b = None \<or> parseInt_field (b_stock b) = NaN"
    using that parseInt_undefined by (auto simp: or_zero_def)
  have c1: "c_name ?r' = b_name b" "c_slug ?r' = b_slug b" "c_category ?r' = b_category b"
    by (simp_all add: written_def)
  have c2: "parseFloat_field (b_price b) = Fin (c_price ?r')"
    by (simp add: written_def rat_of_def p)
  have c3: "c_description ?r' = (if supplied (b_description b) then b_description b else None)"
    by (simp add: written_def or_null_def truthy_supplied_iff)
  have c4: "or_zero (parseInt_field (b_stock b)) = Fin (c_stock ?r')"
    by (simp add: written_def rat_of_def z)
  have c5: "b_description b = None \<longrightarrow> c_description ?r' = None"
    by (simp add: c3 supplied_def)
  have c6: "b_stock b = None \<or> parseInt_field (b_stock b) = NaN \<longrightarrow> c_stock ?r' = 0"
  proof
    assume "b_stock b = None \<or> parseInt_field (b_stock b) = NaN"
    then have "Fin (c_stock ?r') = Fin 0" using z0 c4 by simp
    then show "c_stock ?r' = 0" by simp
  qed
  have c7: "b_stock b = Some (decimal n) \<and> n < 2 ^ 53 \<longrightarrow> c_stock ?r' = of_nat n"
  proof
    assume "b_stock b = Some (decimal n) \<and> n < 2 ^ 53"
    then have "parseInt_field (b_stock b) = Fin (of_nat n)"
      by (simp add: parseInt_field_def template_def parseInt_str_decimal)
    then have "or_zero (parseInt_field (b_stock b)) = Fin (of_nat n)"
      by (simp add: or_zero_def)
    with c4 have "Fin (c_stock ?r') = Fin (of_nat n)" by simp
    then show "c_stock ?r' = of_nat n" by simp
  qed
  have c8: "b_price b = Some (decimal m) \<and> m < 2 ^ 53 \<longrightarrow> c_price ?r' = of_nat m"
  proof
    assume "b_price b = Some (decimal m) \<and> m < 2 ^ 53"
    then have "parseFloat_field (b_price b) = Fin (of_nat m)"
      by (simp add: parseFloat_field_def template_def parseFloat_str_decimal)
    with c2 have "Fin (c_price ?r') = Fin (of_nat m)" by simp
    then show "c_price ?r' = of_nat m" by simp
  qed
  show "\<exists>r'. stored db' i = Some r'
           \<and> c_name r' = b_name b \<and> c_slug r' = b_slug b \<and> c_category r' = b_category b
           \<and> parseFloat_field (b_price b) = Fin (c_price r')
           \<and> c_description r' = (if supplied (b_description b) then b_description b else None)
           \<and> or_zero (parseInt_field (b_stock b)) = Fin (c_stock r')
           \<and> (b_description b = None \<longrightarrow> c_description r' = None)
           \<and> (b_stock b = None \<or> parseInt_field (b_stock b) = NaN \<longrightarrow> c_stock r' = 0)
           \<and> (b_stock b = Some (decimal n) \<and> n < 2 ^ 53 \<longrightarrow> c_stock r' = of_nat n)
           \<and> (b_price b = Some (decimal m) \<and> m < 2 ^ 53 \<longrightarrow> c_price r' = of_nat m)"
  proof (rule exI [of _ ?r'], intro conjI)
  qed (fact r c1 c2 c3 c4 c5 c6 c7 c8)+
qed

theorem update_overwrites_fields_witness:
  "status (snd (updateProduct accept_all mug_shop example_request 1
       (example_body\<lparr>b_price := Some ''12.5'', b_stock := Some ''many''\<rparr>) None)) = 200
   \<and> b_description (example_body\<lparr>b_price := Some ''12.5'', b_stock := Some ''many''\<rparr>) = None
   \<and> parseInt_field (b_stock (example_body\<lparr>b_price := Some ''12.5'', b_stock := Some ''many''\<rparr>)) = NaN
   \<and> map_option c_name (stored (fst (updateProduct accept_all mug_shop example_request 1
       (example_body\<lparr>b_price := Some ''12.5'', b_stock := Some ''many''\<rparr>) None)) 1)
       = Some (Some ''Ladle'')
   \<and> map_option c_price (stored (fst (updateProduct accept_all mug_shop example_request 1
       (example_body\<lparr>b_price := Some ''12.5'', b_stock := Some ''many''\<rparr>) None)) 1)
       = Some (25 / 2)
   \<and> map_option c_description (stored (fst (updateProduct accept_all mug_shop example_request 1
       (example_body\<lparr>b_price := Some ''12.5'', b_stock := Some ''many''\<rparr>) None)) 1)
       = Some None
   \<and> map_option c_stock (stored (fst (updateProduct accept_all mug_shop example_request 1
       (example_body\<lparr>b_price := Some ''12.5'', b_stock := Some ''many''\<rparr>) None)) 1)
       = Some 0
   \<and> status (snd (updateProduct accept_all mug_shop example_request 1
       (example_body\<lparr>b_price := Some ''12'', b_stock := Some ''7''\<rparr>) None)) = 200
   \<and> b_stock (example_body\<lparr>b_price := Some ''12'', b_stock := Some ''7''\<rparr>) = Some (decimal 7)
   \<and> b_price (example_body\<lparr>b_price := Some ''12'', b_stock := Some ''7''\<rparr>) = Some (decimal 12)
   \<and> (7 :: nat) < 2 ^ 53 \<and> (12 :: nat) < 2 ^ 53
   \<and> map_option c_stock (stored mug_shop 1) = Some 1
   \<and> map_option c_stock (stored (fst (updateProduct accept_all mug_shop example_request 1
       (example_body\<lparr>b_price := Some ''12'', b_stock := Some ''7''\<rparr>) None)) 1)
       = Some 7
   \<and> map_option c_price (stored (fst (updateProduct accept_all mug_shop example_request 1
       (example_body\<lparr>b_price := Some ''12'', b_stock := Some ''7''\<rparr>) None)) 1)
       = Some 12"
proof -
  let ?b = "example_body\<lparr>b_price := Some ''12.5'', b_stock := Some ''many''\<rparr>"
  let ?U = "updateProduct accept_all mug_shop example_request 1 ?b None"
  have u: "status (snd ?U) = 200" by code_simp
  have d: "b_description ?b = None" by code_simp
  have n: "parseInt_field (b_stock ?b) = NaN" by code_simp
  have nm: "b_name ?b = Some ''Ladle''" by code_simp
  have pr: "parseFloat_field (b_price ?b) = Fin (25 / 2)" by code_simp
  note T = update_overwrites_fields [where chk = accept_all and db = mug_shop
      and req = example_request and i = 1 and b = ?b and up = None and db' = "fst ?U"
      and resp = "snd ?U" and n = 0 and m = 0]
  from T u obtain r' where r: "stored (fst ?U) 1 = Some r'" "c_name r' = b_name ?b"
      "parseFloat_field (b_price ?b) = Fin (c_price r')"
      "b_description ?b = None \<longrightarrow> c_description r' = None"
      "b_stock ?b = None \<or> parseInt_field (b_stock ?b) = NaN \<longrightarrow> c_stock r' = 0"
    by auto
  from r(3) pr have "c_price r' = 25 / 2" by simp
  with r d n nm have first: "map_option c_name (stored (fst ?U) 1) = Some (Some ''Ladle'')"
    "map_option c_price (stored (fst ?U) 1) = Some (25 / 2)"
    "map_option c_description (stored (fst ?U) 1) = Some None"
    "map_option c_stock (stored (fst ?U) 1) = Some 0"
    by simp_all
  let ?c = "example_body\<lparr>b_price := Some ''12'', b_stock := Some ''7''\<rparr>"
  let ?V = "updateProduct accept_all mug_shop example_request 1 ?c None"
  have v: "status (snd ?V) = 200" by code_simp
  have d7: "''7'' = decimal 7" and d12: "''12'' = decimal 12" by code_simp+
  have st: "b_stock ?c = Some (decimal 7)" and pc: "b_price ?c = Some (decimal 12)"
    by (simp_all add: d7 d12)
  have small: "(7 :: nat) < 2 ^ 53" "(12 :: nat) < 2 ^ 53" by simp_all
  have before: "map_option c_stock (stored mug_shop 1) = Some 1" by code_simp
  note S = update_overwrites_fields [where chk = accept_all and db = mug_shop
      and req = example_request and i = 1 and b = ?c and up = None and db' = "fst ?V"
      and resp = "snd ?V" and n = 7 and m = 12]
  from S v obtain r'' where s: "stored (fst ?V) 1 = Some r''"
      "b_stock ?c = Some (decimal 7) \<and> (7 :: nat) < 2 ^ 53 \<longrightarrow> c_stock r'' = of_nat 7"
      "b_price ?c = Some (decimal 12) \<and> (12 :: nat) < 2 ^ 53 \<longrightarrow> c_price r'' = of_nat 12"
    by auto
  from s st pc small have second: "map_option c_stock (stored (fst ?V) 1) = Some 7"
    "map_option c_price (stored (fst ?V) 1) = Some 12"
    by simp_all
  from u d n first v st pc small before second show ?thesis by blast
qed

text \<open>
  C6. On a table where product 1 has the slug \<^verbatim>\<open>mug-1\<close>, a create with that slug is
  answered with status 400 and \<^verbatim>\<open>Product slug already exists\<close>, but an update of product 2
  to that slug is answered with status 500 and \<^verbatim>\<open>Failed to update product\<close>: the \<^verbatim>\<open>catch\<close>
  block of the update handler does not look at the error code.
\<close>

theorem duplicate_slug_on_update:
  "createProduct accept_all example_shop example_request (example_body\<lparr>b_slug := Some ''mug-1''\<rparr>) None
     = (example_shop, \<lparr>status = 400, body = ErrorJson ''Product slug already exists''\<rparr>)
   \<and> updateProduct accept_all example_shop example_request 2 (example_body\<lparr>b_slug := Some ''mug-1''\<rparr>) None
     = (example_shop, \<lparr>status = 500, body = ErrorJson ''Failed to update product''\<rparr>)"
  by code_simp

theorem duplicate_slug_on_update_witness:
  "status (snd (createProduct accept_all example_shop example_request
       (example_body\<lparr>b_slug := Some ''mug-1''\<rparr>) None)) = 400
   \<and> status (snd (updateProduct accept_all example_shop example_request 2
       (example_body\<lparr>b_slug := Some ''mug-1''\<rparr>) None)) = 500"
  using duplicate_slug_on_update by simp

end
